theory Spec2Isabelle
  imports Main "HOL-Library.Log_Nat"
begin

section \<open>JavaScript values used by the server actions\<close>

text \<open>
  The server actions of the dashboard read form fields, coerce and validate
  them with zod schemas, and talk to a SQL client, the cache and the router. This
  section models the values: form entries, numbers and errors.

  A JavaScript string is modelled as a HOL \<open>string\<close>; one \<open>char\<close> stands for one
  UTF-16 code unit, which is exact for the code units below 256.
\<close>

subsection \<open>Numbers\<close>

text \<open>
  A JavaScript number is an IEEE 754 binary64 value. \<open>Fin q\<close> is the finite double whose
  exact value is the rational \<open>q\<close>, \<open>Inf neg\<close> is the infinity of the given sign. The two
  zeros are one value \<open>Fin 0\<close>: the program only compares numbers with \<open>0\<close> and multiplies
  the positive ones, so the sign of a zero is never observed.
\<close>

datatype js_number = NaN | Inf bool | Fin rat

definition pow2 :: "int \<Rightarrow> rat" where
  "pow2 k = (if 0 \<le> k then 2 ^ nat k else 1 / 2 ^ nat (- k))"

text \<open>\<open>ilog2 q\<close> is the integer \<open>e\<close> with \<open>2^e \<le> q < 2^(e+1)\<close>, for a positive \<open>q\<close>.\<close>

definition ilog2 :: "rat \<Rightarrow> int" where
  "ilog2 q =
     (let (n, d) = quotient_of q;
          k = bitlen n - bitlen d
      in if pow2 k \<le> q then k else k - 1)"

text \<open>Rounding to the nearest integer, a tie going to the even neighbour.\<close>

definition round_half_even :: "rat \<Rightarrow> int" where
  "round_half_even x =
     (let f = \<lfloor>x\<rfloor>; r = x - of_int f
      in if r < 1 / 2 then f
         else if 1 / 2 < r then f + 1
         else if even f then f else f + 1)"

text \<open>
  \<open>fl q\<close> is the double nearest to the real number \<open>q\<close> (round to nearest, ties to even):
  53 significant bits, the unit in the last place never below \<open>2^-1074\<close>, and an infinity
  once the rounded magnitude reaches \<open>2^1024\<close>.
\<close>

definition fl :: "rat \<Rightarrow> js_number" where
  "fl q =
     (if q = 0 then Fin 0
      else
        let a = \<bar>q\<bar>;
            p = max (ilog2 a - 52) (- 1074);
            m = round_half_even (a / pow2 p);
            v = of_int m * pow2 p
        in if pow2 1024 \<le> v then Inf (q < 0)
           else Fin (if q < 0 then - v else v))"

text \<open>The operator \<^verbatim>\<open>*\<close> on numbers.\<close>

fun js_mul :: "js_number \<Rightarrow> js_number \<Rightarrow> js_number" where
  "js_mul NaN _ = NaN"
| "js_mul _ NaN = NaN"
| "js_mul (Inf s) (Inf t) = Inf (s \<noteq> t)"
| "js_mul (Inf s) (Fin b) = (if b = 0 then NaN else Inf (s \<noteq> (b < 0)))"
| "js_mul (Fin a) (Inf t) = (if a = 0 then NaN else Inf ((a < 0) \<noteq> t))"
| "js_mul (Fin a) (Fin b) = fl (a * b)"

text \<open>The operator \<^verbatim>\<open><=\<close> on numbers: false as soon as one side is \<open>NaN\<close>.\<close>

fun js_le :: "js_number \<Rightarrow> js_number \<Rightarrow> bool" where
  "js_le NaN _ = False"
| "js_le _ NaN = False"
| "js_le (Inf s) (Inf t) = (s \<or> \<not> t)"
| "js_le (Inf s) (Fin b) = s"
| "js_le (Fin a) (Inf t) = (\<not> t)"
| "js_le (Fin a) (Fin b) = (a \<le> b)"

subsection \<open>Strings to numbers\<close>

text \<open>
  \<^verbatim>\<open>Number(s)\<close> on a string: the white space around the text is dropped, an empty text
  is \<open>0\<close>, then the text is a binary, octal or hexadecimal integer (prefix \<^verbatim>\<open>0b\<close>,
  \<^verbatim>\<open>0o\<close>, \<^verbatim>\<open>0x\<close>, no sign), or an optionally signed \<^verbatim>\<open>Infinity\<close> or decimal literal
  (digits, an optional fraction, an optional exponent); anything else is \<open>NaN\<close>. The
  mathematical value is rounded to a double.
\<close>

definition is_ws :: "char \<Rightarrow> bool" where
  "is_ws c \<longleftrightarrow> (of_char c :: int) \<in> {9, 10, 11, 12, 13, 32, 160}"

definition trim :: "string \<Rightarrow> string" where
  "trim s = rev (dropWhile is_ws (rev (dropWhile is_ws s)))"

definition digit_of :: "char \<Rightarrow> int option" where
  "digit_of = map_of (zip ''0123456789abcdef'' [0..15] @ zip ''ABCDEF'' [10..15])"

text \<open>The value of a digit string in base \<open>b\<close>, read from an accumulator.\<close>

primrec digits_acc :: "int \<Rightarrow> int \<Rightarrow> string \<Rightarrow> int option" where
  "digits_acc b acc [] = Some acc"
| "digits_acc b acc (c # cs) =
     (case digit_of c of
        None \<Rightarrow> None
      | Some d \<Rightarrow> if d < b then digits_acc b (acc * b + d) cs else None)"

text \<open>A digit string that may be empty, and one that may not.\<close>

definition digits_opt :: "int \<Rightarrow> string \<Rightarrow> int option" where
  "digits_opt b s = digits_acc b 0 s"

definition digits1 :: "int \<Rightarrow> string \<Rightarrow> int option" where
  "digits1 b s = (if s = [] then None else digits_acc b 0 s)"

text \<open>Cutting a string at the first character that satisfies \<open>P\<close>.\<close>

definition cut_at :: "(char \<Rightarrow> bool) \<Rightarrow> string \<Rightarrow> string \<times> string option" where
  "cut_at P s =
     (let a = takeWhile (\<lambda>c. \<not> P c) s; b = dropWhile (\<lambda>c. \<not> P c) s
      in (a, if b = [] then None else Some (tl b)))"

definition pow10 :: "int \<Rightarrow> rat" where
  "pow10 k = (if 0 \<le> k then 10 ^ nat k else 1 / 10 ^ nat (- k))"

text \<open>The exponent part after the letter \<^verbatim>\<open>e\<close>: an optional sign and at least one digit.\<close>

definition exponent_part :: "string \<Rightarrow> int option" where
  "exponent_part s =
     (case s of
        CHR ''+'' # t \<Rightarrow> digits1 10 t
      | CHR ''-'' # t \<Rightarrow> map_option uminus (digits1 10 t)
      | _ \<Rightarrow> digits1 10 s)"

text \<open>
  The digits before the exponent: \<^verbatim>\<open>12\<close>, \<^verbatim>\<open>12.\<close>, \<^verbatim>\<open>12.5\<close> or \<^verbatim>\<open>.5\<close>, never a lone dot.
\<close>

definition mantissa_part :: "string \<Rightarrow> rat option" where
  "mantissa_part s =
     (case cut_at (\<lambda>c. c = CHR ''.'') s of
        (ip, None) \<Rightarrow> map_option of_int (digits1 10 ip)
      | (ip, Some fp) \<Rightarrow>
          (if ip = [] \<and> fp = [] then None
           else case (digits_opt 10 ip, digits_opt 10 fp) of
                  (Some i, Some f) \<Rightarrow> Some (of_int i + of_int f / 10 ^ length fp)
                | _ \<Rightarrow> None))"

definition unsigned_decimal :: "string \<Rightarrow> rat option" where
  "unsigned_decimal s =
     (case cut_at (\<lambda>c. c = CHR ''e'' \<or> c = CHR ''E'') s of
        (m, None) \<Rightarrow> mantissa_part m
      | (m, Some x) \<Rightarrow>
          (case (mantissa_part m, exponent_part x) of
             (Some q, Some e) \<Rightarrow> Some (q * pow10 e)
           | _ \<Rightarrow> None))"

definition radix_literal :: "int \<Rightarrow> string \<Rightarrow> js_number" where
  "radix_literal b s = (case digits1 b s of None \<Rightarrow> NaN | Some n \<Rightarrow> fl (of_int n))"

definition signed_decimal :: "string \<Rightarrow> js_number" where
  "signed_decimal s =
     (let (neg, u) =
            (case s of
               CHR ''-'' # t \<Rightarrow> (True, t)
             | CHR ''+'' # t \<Rightarrow> (False, t)
             | _ \<Rightarrow> (False, s))
      in if u = ''Infinity'' then Inf neg
         else case unsigned_decimal u of
                None \<Rightarrow> NaN
              | Some q \<Rightarrow> fl (if neg then - q else q))"

definition string_to_number :: "string \<Rightarrow> js_number" where
  "string_to_number s0 =
     (let s = trim s0
      in if s = [] then Fin 0
         else if take 2 s \<in> {''0x'', ''0X''} then radix_literal 16 (drop 2 s)
         else if take 2 s \<in> {''0o'', ''0O''} then radix_literal 8 (drop 2 s)
         else if take 2 s \<in> {''0b'', ''0B''} then radix_literal 2 (drop 2 s)
         else signed_decimal s)"

subsection \<open>Form data\<close>

text \<open>
  A \<^verbatim>\<open>FormData\<close> entry is a string or a file; \<^verbatim>\<open>formData.get(name)\<close> is the first entry
  of that name, or \<^verbatim>\<open>null\<close> (here \<open>None\<close>) when there is none.
\<close>

datatype form_entry = Text string | File

type_synonym form_data = "(string \<times> form_entry) list"

definition formData_get :: "form_data \<Rightarrow> string \<Rightarrow> form_entry option" where
  "formData_get fd name = map_of fd name"

text \<open>
  \<^verbatim>\<open>Number(v)\<close> on what \<^verbatim>\<open>formData.get\<close> returns: \<^verbatim>\<open>null\<close> is \<open>0\<close>, a string is parsed, a
  file object is converted through its string form \<^verbatim>\<open>[object File]\<close>.
\<close>

fun js_Number :: "form_entry option \<Rightarrow> js_number" where
  "js_Number None = Fin 0"
| "js_Number (Some (Text s)) = string_to_number s"
| "js_Number (Some File) = string_to_number ''[object File]''"

subsection \<open>Errors and completions\<close>

text \<open>
  A thrown value is an \<^verbatim>\<open>AuthError\<close> of next-auth, which carries its \<^verbatim>\<open>type\<close>, or any
  other error. A server action either returns a value, throws, or leaves through
  \<^verbatim>\<open>redirect\<close>, which never returns to its caller.
\<close>

datatype js_error = AuthError string | OtherError string

datatype 'a completion = Returns 'a | Throws js_error | Redirects string

section \<open>The zod schemas\<close>

text \<open>
  A schema applied to one value gives the parsed value or the messages of its issues.
  The messages that the source does not set are the defaults of zod 3.
\<close>

datatype status = Pending | Paid

text \<open>\<^verbatim>\<open>customerId: z.string({ invalid_type_error: 'Please select a customer.' })\<close>\<close>

fun customerId_schema :: "form_entry option \<Rightarrow> string list + string" where
  "customerId_schema (Some (Text s)) = Inr s"
| "customerId_schema _ = Inl [''Please select a customer.'']"

text \<open>
  \<^verbatim>\<open>amount: z.coerce.number().gt(0, { message: ... })\<close>: the input goes through
  \<^verbatim>\<open>Number\<close>, a \<open>NaN\<close> is a type issue, and the check \<^verbatim>\<open>gt(0)\<close> raises its issue when
  \<^verbatim>\<open>data <= 0\<close>.
\<close>

definition amount_schema :: "form_entry option \<Rightarrow> string list + js_number" where
  "amount_schema v =
     (let n = js_Number v
      in if n = NaN then Inl [''Expected number, received nan'']
         else if js_le n (Fin 0) then Inl [''Please enter an amount greater than $0.'']
         else Inr n)"

text \<open>
  \<^verbatim>\<open>status: z.enum(['pending', 'paid'], { invalid_type_error: ... })\<close>: a value that is not
  a string is a type issue, a string outside the list is an enum issue.
\<close>

fun status_schema :: "form_entry option \<Rightarrow> string list + status" where
  "status_schema (Some (Text s)) =
     (if s = ''pending'' then Inr Pending
      else if s = ''paid'' then Inr Paid
      else Inl [''Invalid enum value. Expected 'pending' | 'paid', received ''
                @ [CHR 39] @ s @ [CHR 39]])"
| "status_schema _ = Inl [''Please select an invoice status.'']"

text \<open>
  \<^verbatim>\<open>State\<close>: the per-field messages of \<^verbatim>\<open>error.flatten().fieldErrors\<close> (a key is present
  only when its field has an issue) and the message.
\<close>

record field_errors =
  err_customerId :: "string list option"
  err_amount :: "string list option"
  err_status :: "string list option"

record form_state =
  errors :: "field_errors option"
  message :: "string option"

definition issues :: "string list + 'a \<Rightarrow> string list option" where
  "issues r = (case r of Inl ms \<Rightarrow> Some ms | Inr _ \<Rightarrow> None)"

text \<open>
  \<^verbatim>\<open>FormSchema.omit({ id: true, date: true }).safeParse({customerId, amount, status})\<close>:
  every field is parsed, and the parse succeeds when no field has an issue.
\<close>

definition FormSchema_safeParse ::
  "form_entry option \<Rightarrow> form_entry option \<Rightarrow> form_entry option
   \<Rightarrow> field_errors + (string \<times> js_number \<times> status)" where
  "FormSchema_safeParse c a s =
     (case (customerId_schema c, amount_schema a, status_schema s) of
        (Inr customerId, Inr amount, Inr status) \<Rightarrow> Inr (customerId, amount, status)
      | (rc, ra, rs) \<Rightarrow>
          Inl \<lparr>err_customerId = issues rc, err_amount = issues ra, err_status = issues rs\<rparr>)"

definition CreateInvoice_safeParse ::
  "form_entry option \<Rightarrow> form_entry option \<Rightarrow> form_entry option
   \<Rightarrow> field_errors + (string \<times> js_number \<times> status)" where
  "CreateInvoice_safeParse = FormSchema_safeParse"

definition UpdateInvoice_safeParse ::
  "form_entry option \<Rightarrow> form_entry option \<Rightarrow> form_entry option
   \<Rightarrow> field_errors + (string \<times> js_number \<times> status)" where
  "UpdateInvoice_safeParse = FormSchema_safeParse"

subsection \<open>The registration schema\<close>

text \<open>\<^verbatim>\<open>z.string().min(n, { message })\<close>\<close>

fun string_min :: "nat \<Rightarrow> string \<Rightarrow> form_entry option \<Rightarrow> string list + string" where
  "string_min n msg (Some (Text s)) = (if length s < n then Inl [msg] else Inr s)"
| "string_min n msg (Some File) = Inl [''Expected string, received object'']"
| "string_min n msg None = Inl [''Expected string, received null'']"

text \<open>
  \<^verbatim>\<open>z.string().email({ message })\<close> tests the string with the pattern of zod 3.23,
  \<^verbatim>\<open>/^(?!\.)(?!.*\.\.)([A-Z0-9_'+\-\.]*)[A-Z0-9_+-]@([A-Z0-9][A-Z0-9\-]*\.)+[A-Z]{2,}$/i\<close>:
  no leading dot and no two dots in a row; before the first \<^verbatim>\<open>@\<close> a non-empty local part
  of letters, digits and \<^verbatim>\<open>_'+-.\<close> whose last character is not a dot or a quote; after it
  one or more labels (a letter or digit, then letters, digits or hyphens), each followed
  by a dot, and a final part of at least two letters.
\<close>

definition is_alpha :: "char \<Rightarrow> bool" where
  "is_alpha c \<longleftrightarrow>
     c \<in> set ''abcdefghijklmnopqrstuvwxyz'' \<or> c \<in> set ''ABCDEFGHIJKLMNOPQRSTUVWXYZ''"

definition is_alnum :: "char \<Rightarrow> bool" where
  "is_alnum c \<longleftrightarrow> is_alpha c \<or> c \<in> set ''0123456789''"

fun split_on :: "char \<Rightarrow> string \<Rightarrow> string list" where
  "split_on d [] = [[]]"
| "split_on d (c # cs) =
     (if c = d then [] # split_on d cs
      else case split_on d cs of
             p # ps \<Rightarrow> (c # p) # ps
           | [] \<Rightarrow> [[c]])"

fun has_dotdot :: "string \<Rightarrow> bool" where
  "has_dotdot (a # b # cs) = (a = CHR ''.'' \<and> b = CHR ''.'' \<or> has_dotdot (b # cs))"
| "has_dotdot _ = False"

definition local_ok :: "string \<Rightarrow> bool" where
  "local_ok l \<longleftrightarrow>
     l \<noteq> [] \<and>
     list_all (\<lambda>c. is_alnum c \<or> c \<in> set ''_+-.'' \<or> c = CHR 39) (butlast l) \<and>
     (is_alnum (last l) \<or> last l \<in> set ''_+-'')"

definition label_ok :: "string \<Rightarrow> bool" where
  "label_ok l \<longleftrightarrow>
     l \<noteq> [] \<and> is_alnum (hd l) \<and> list_all (\<lambda>c. is_alnum c \<or> c = CHR ''-'') (tl l)"

definition domain_ok :: "string \<Rightarrow> bool" where
  "domain_ok d \<longleftrightarrow>
     (let ps = split_on (CHR ''.'') d
      in 2 \<le> length ps \<and> list_all label_ok (butlast ps) \<and>
         2 \<le> length (last ps) \<and> list_all is_alpha (last ps))"

definition email_regex :: "string \<Rightarrow> bool" where
  "email_regex s \<longleftrightarrow>
     (case cut_at (\<lambda>c. c = CHR ''@'') s of
        (l, None) \<Rightarrow> False
      | (l, Some d) \<Rightarrow>
          take 1 s \<noteq> ''.'' \<and> \<not> has_dotdot s \<and> local_ok l \<and> domain_ok d)"

fun string_email :: "string \<Rightarrow> form_entry option \<Rightarrow> string list + string" where
  "string_email msg (Some (Text s)) = (if email_regex s then Inr s else Inl [msg])"
| "string_email msg (Some File) = Inl [''Expected string, received object'']"
| "string_email msg None = Inl [''Expected string, received null'']"

text \<open>
  \<^verbatim>\<open>RegisterFormSchema.safeParse({name, email, password})\<close>; the action only looks at
  \<^verbatim>\<open>success\<close> and \<^verbatim>\<open>data\<close>, so a failed parse is \<open>None\<close>.
\<close>

definition RegisterFormSchema_safeParse ::
  "form_entry option \<Rightarrow> form_entry option \<Rightarrow> form_entry option
   \<Rightarrow> (string \<times> string \<times> string) option" where
  "RegisterFormSchema_safeParse n e p =
     (case (string_min 1 ''Name is required'' n,
            string_email ''Please enter a valid email address.'' e,
            string_min 6 ''Password must be at least 6 characters.'' p) of
        (Inr name, Inr email, Inr password) \<Rightarrow> Some (name, email, password)
      | _ \<Rightarrow> None)"

section \<open>The world of a server action\<close>

subsection \<open>The clock\<close>

text \<open>
  \<^verbatim>\<open>new Date()\<close> reads the clock; the reading is kept as its UTC fields, as they are
  printed (the month from 1 to 12). \<^verbatim>\<open>toISOString()\<close> prints them as
  \<^verbatim>\<open>YYYY-MM-DDTHH:mm:ss.sssZ\<close>, the year with four digits from 0 to 9999 and with a sign
  and six digits otherwise.
\<close>

record js_date =
  year :: int
  month :: int
  day :: int
  hours :: int
  minutes :: int
  seconds :: int
  millis :: int

definition digit_char :: "int \<Rightarrow> char" where
  "digit_char d = ''0123456789'' ! nat (d mod 10)"

text \<open>The last \<open>w\<close> decimal digits of \<open>n\<close>, zeros in front.\<close>

definition pad :: "nat \<Rightarrow> int \<Rightarrow> string" where
  "pad w n = map (\<lambda>i. digit_char (n div 10 ^ i)) (rev [0..<w])"

definition iso_year :: "int \<Rightarrow> string" where
  "iso_year y =
     (if 0 \<le> y \<and> y \<le> 9999 then pad 4 y
      else (if y < 0 then ''-'' else ''+'') @ pad 6 \<bar>y\<bar>)"

definition iso_date :: "js_date \<Rightarrow> string" where
  "iso_date t = iso_year (year t) @ ''-'' @ pad 2 (month t) @ ''-'' @ pad 2 (day t)"

definition toISOString :: "js_date \<Rightarrow> string" where
  "toISOString t =
     iso_date t @ ''T'' @ pad 2 (hours t) @ '':'' @ pad 2 (minutes t) @ '':''
       @ pad 2 (seconds t) @ ''.'' @ pad 3 (millis t) @ ''Z''"

text \<open>\<^verbatim>\<open>s.split('T')[0]\<close>: the text before the first \<^verbatim>\<open>T\<close>, all of \<open>s\<close> when it has none.\<close>

definition split_T_0 :: "string \<Rightarrow> string" where
  "split_T_0 s = takeWhile (\<lambda>c. c \<noteq> CHR ''T'') s"

subsection \<open>The database, the cache and the router\<close>

record invoice_row =
  inv_id :: string
  inv_customer_id :: string
  inv_amount :: js_number
  inv_status :: status
  inv_date :: string

record user_row =
  usr_id :: string
  usr_name :: string
  usr_email :: string
  usr_password :: string

text \<open>The statements that the actions send, with their bound parameters.\<close>

datatype stmt =
    InsertInvoice string js_number status string
  | UpdateInvoiceSet string js_number status string
  | DeleteInvoice string
  | SelectUserId string
  | InsertUser string string string

datatype effect =
    Sql stmt
  | RevalidatePath string
  | Redirect string
  | ConsoleLog js_error
  | ConsoleError string js_error
  | BcryptHash string nat
  | SignIn string form_data

text \<open>
  The world holds the two tables, the clock, and what the collaborators outside the
  program will do: \<open>sql_count\<close> is the number of statements sent so far,
  \<open>sql_outcome w n\<close> the error that the \<open>n\<close>-th statement sent to the client raises
  (\<open>None\<close>: it succeeds), \<open>new_id w n\<close> the identifier that the database gives to a row
  inserted by that statement, \<open>bcrypt_hash\<close> the result of \<^verbatim>\<open>bcryptjs.hash\<close> (the salt it
  draws included; on a string and a number it does not fail), \<open>signIn_outcome\<close> the
  error that \<^verbatim>\<open>signIn\<close> raises (\<open>None\<close>: it resolves). \<open>trace\<close> records every call that
  leaves the program, in order.
\<close>

record world =
  invoices :: "invoice_row list"
  users :: "user_row list"
  now :: js_date
  sql_outcome :: "nat \<Rightarrow> js_error option"
  new_id :: "nat \<Rightarrow> string"
  sql_count :: nat
  bcrypt_hash :: "string \<Rightarrow> nat \<Rightarrow> string"
  signIn_outcome :: "string \<Rightarrow> form_data \<Rightarrow> js_error option"
  trace :: "effect list"

text \<open>
  What a statement that succeeds does to the tables, and the identifiers that it gives
  back (only the \<^verbatim>\<open>SELECT id\<close> has rows).
\<close>

fun run_stmt :: "stmt \<Rightarrow> string \<Rightarrow> world \<Rightarrow> string list \<times> world" where
  "run_stmt (InsertInvoice c a s d) i w =
     ([], w\<lparr>invoices := invoices w @
          [\<lparr>inv_id = i, inv_customer_id = c, inv_amount = a, inv_status = s, inv_date = d\<rparr>]\<rparr>)"
| "run_stmt (UpdateInvoiceSet c a s k) i w =
     ([], w\<lparr>invoices :=
          map (\<lambda>r. if inv_id r = k
                    then r\<lparr>inv_customer_id := c, inv_amount := a, inv_status := s\<rparr>
                    else r) (invoices w)\<rparr>)"
| "run_stmt (DeleteInvoice k) i w =
     ([], w\<lparr>invoices := filter (\<lambda>r. inv_id r \<noteq> k) (invoices w)\<rparr>)"
| "run_stmt (SelectUserId e) i w =
     (map usr_id (filter (\<lambda>u. usr_email u = e) (users w)), w)"
| "run_stmt (InsertUser n e p) i w =
     ([], w\<lparr>users := users w @
          [\<lparr>usr_id = i, usr_name = n, usr_email = e, usr_password = p\<rparr>]\<rparr>)"

text \<open>
  One statement through the \<^verbatim>\<open>sql\<close> client: it is recorded and counted, then it raises
  and leaves the tables as they are, or it runs.
\<close>

definition sql :: "stmt \<Rightarrow> world \<Rightarrow> (js_error + string list) \<times> world" where
  "sql st w =
     (let n = sql_count w;
          w1 = w\<lparr>sql_count := Suc n, trace := trace w @ [Sql st]\<rparr>
      in case sql_outcome w n of
           Some e \<Rightarrow> (Inl e, w1)
         | None \<Rightarrow> (case run_stmt st (new_id w n) w1 of (rows, w2) \<Rightarrow> (Inr rows, w2)))"

definition emit :: "effect \<Rightarrow> world \<Rightarrow> world" where
  "emit e w = w\<lparr>trace := trace w @ [e]\<rparr>"

definition revalidatePath :: "string \<Rightarrow> world \<Rightarrow> world" where
  "revalidatePath p = emit (RevalidatePath p)"

definition redirect :: "string \<Rightarrow> world \<Rightarrow> 'a completion \<times> world" where
  "redirect p w = (Redirects p, emit (Redirect p) w)"

definition signIn :: "string \<Rightarrow> form_data \<Rightarrow> world \<Rightarrow> js_error option \<times> world" where
  "signIn provider fd w = (signIn_outcome w provider fd, emit (SignIn provider fd) w)"

definition bcryptjs_hash :: "string \<Rightarrow> nat \<Rightarrow> world \<Rightarrow> string \<times> world" where
  "bcryptjs_hash pw cost w = (bcrypt_hash w pw cost, emit (BcryptHash pw cost) w)"

section \<open>The server actions\<close>

definition createInvoice ::
  "form_state \<Rightarrow> form_data \<Rightarrow> world \<Rightarrow> form_state completion \<times> world" where
  "createInvoice prevState formData w =
     (case CreateInvoice_safeParse (formData_get formData ''customerId'')
             (formData_get formData ''amount'') (formData_get formData ''status'') of
        Inl fieldErrors \<Rightarrow>
          (Returns \<lparr>errors = Some fieldErrors,
                    message = Some ''Missing Fields. Failed to create Invoice.''\<rparr>, w)
      | Inr (customerId, amount, status) \<Rightarrow>
          (let amountInCents = js_mul amount (Fin 100);
               date = split_T_0 (toISOString (now w))
           in case sql (InsertInvoice customerId amountInCents status date) w of
                (Inl error, w1) \<Rightarrow>
                  (Returns \<lparr>errors = None,
                            message = Some ''Database Error: Failed to Create Invoice.''\<rparr>, w1)
              | (Inr _, w1) \<Rightarrow>
                  redirect ''/dashboard/invoices'' (revalidatePath ''/dashboard/invoices'' w1)))"

definition updateInvoice ::
  "string \<Rightarrow> form_state \<Rightarrow> form_data \<Rightarrow> world \<Rightarrow> form_state completion \<times> world" where
  "updateInvoice id' prevState formData w =
     (case UpdateInvoice_safeParse (formData_get formData ''customerId'')
             (formData_get formData ''amount'') (formData_get formData ''status'') of
        Inl fieldErrors \<Rightarrow>
          (Returns \<lparr>errors = Some fieldErrors,
                    message = Some ''Missing Fields. Failed to update Invoice.''\<rparr>, w)
      | Inr (customerId, amount, status) \<Rightarrow>
          (let amountInCents = js_mul amount (Fin 100)
           in case sql (UpdateInvoiceSet customerId amountInCents status id') w of
                (Inl error, w1) \<Rightarrow>
                  (Returns \<lparr>errors = None,
                            message = Some ''Database Error: Failed to Update Invoice.''\<rparr>, w1)
              | (Inr _, w1) \<Rightarrow>
                  redirect ''/dashboard/invoices'' (revalidatePath ''/dashboard/invoices'' w1)))"

text \<open>The \<^verbatim>\<open>try\<close> block holds the statement and the invalidation; the handler logs.\<close>

definition deleteInvoice :: "string \<Rightarrow> world \<Rightarrow> unit completion \<times> world" where
  "deleteInvoice id' w =
     (case sql (DeleteInvoice id') w of
        (Inl error, w1) \<Rightarrow> (Returns (), emit (ConsoleLog error) w1)
      | (Inr _, w1) \<Rightarrow> (Returns (), revalidatePath ''/dashboard/invoices'' w1))"

text \<open>A run that falls off the end of the function returns \<^verbatim>\<open>undefined\<close>, here \<open>None\<close>.\<close>

definition authenticate ::
  "string option \<Rightarrow> form_data \<Rightarrow> world \<Rightarrow> string option completion \<times> world" where
  "authenticate prevState formData w =
     (case signIn ''credentials'' formData w of
        (None, w1) \<Rightarrow> (Returns None, w1)
      | (Some error, w1) \<Rightarrow>
          (case error of
             AuthError type \<Rightarrow>
               (if type = ''CredentialsSignin'' then (Returns (Some ''Invalid credentials.''), w1)
                else (Returns (Some ''Something went wrong.''), w1))
           | _ \<Rightarrow> (Throws error, w1)))"

definition register ::
  "string option \<Rightarrow> form_data \<Rightarrow> world \<Rightarrow> string completion \<times> world" where
  "register prevState formData w =
     (case RegisterFormSchema_safeParse (formData_get formData ''name'')
             (formData_get formData ''email'') (formData_get formData ''password'') of
        None \<Rightarrow> (Returns ''Missing Fields. Failed to Register.'', w)
      | Some (name, email, password) \<Rightarrow>
          (case sql (SelectUserId email) w of
             (Inl error, w1) \<Rightarrow>
               (Returns ''Database Error: Failed to register.'',
                emit (ConsoleError ''Registration Error:'' error) w1)
           | (Inr existingUser, w1) \<Rightarrow>
               (if 0 < length existingUser
                then (Returns ''User with this email already exists.'', w1)
                else case bcryptjs_hash password 10 w1 of
                  (hashedPassword, w2) \<Rightarrow>
                    (case sql (InsertUser name email hashedPassword) w2 of
                       (Inl error, w3) \<Rightarrow>
                         (Returns ''Database Error: Failed to register.'',
                          emit (ConsoleError ''Registration Error:'' error) w3)
                     | (Inr _, w3) \<Rightarrow> redirect ''/login'' w3))))"

section \<open>Observations on a run\<close>

text \<open>
  A validation result that carries at least one message for the given field.
\<close>

fun rejected_on ::
  "(field_errors \<Rightarrow> string list option) \<Rightarrow> form_state completion \<Rightarrow> bool" where
  "rejected_on field (Returns st) =
     (case errors st of
        None \<Rightarrow> False
      | Some e \<Rightarrow> (case field e of None \<Rightarrow> False | Some ms \<Rightarrow> ms \<noteq> []))"
| "rejected_on field _ = False"

text \<open>The paths of the redirects and of the cache invalidations in a trace, in order.\<close>

fun redirects :: "effect list \<Rightarrow> string list" where
  "redirects [] = []"
| "redirects (Redirect p # es) = p # redirects es"
| "redirects (_ # es) = redirects es"

fun revalidations :: "effect list \<Rightarrow> string list" where
  "revalidations [] = []"
| "revalidations (RevalidatePath p # es) = p # revalidations es"
| "revalidations (_ # es) = revalidations es"

text \<open>The statements in a trace, in order.\<close>

fun statements :: "effect list \<Rightarrow> stmt list" where
  "statements [] = []"
| "statements (Sql st # es) = st # statements es"
| "statements (_ # es) = statements es"

text \<open>The outcome of validation, as each action tests it.\<close>

definition invoice_form_valid :: "form_data \<Rightarrow> bool" where
  "invoice_form_valid fd \<longleftrightarrow>
     \<not> isl (FormSchema_safeParse (formData_get fd ''customerId'')
              (formData_get fd ''amount'') (formData_get fd ''status''))"

definition register_form :: "form_data \<Rightarrow> (string \<times> string \<times> string) option" where
  "register_form fd =
     RegisterFormSchema_safeParse (formData_get fd ''name'')
       (formData_get fd ''email'') (formData_get fd ''password'')"

subsection \<open>A concrete world and concrete forms\<close>

definition world0 :: world where
  "world0 =
     \<lparr>invoices = [],
      users = [\<lparr>usr_id = ''u1'', usr_name = ''Ann'', usr_email = ''ann@example.org'',
                usr_password = ''$2a$10$ann''\<rparr>],
      now = \<lparr>year = 2024, month = 3, day = 7, hours = 9, minutes = 5, seconds = 1,
              millis = 42\<rparr>,
      sql_outcome = (\<lambda>n. None),
      new_id = (\<lambda>n. ''row'' @ replicate n CHR ''+''),
      sql_count = 0,
      bcrypt_hash = (\<lambda>pw cost. ''$2a$10$'' @ rev pw),
      signIn_outcome = (\<lambda>provider fd. Some (AuthError ''CredentialsSignin'')),
      trace = []\<rparr>"

text \<open>The same world with a database that is down.\<close>

definition world_down :: world where
  "world_down = world0\<lparr>sql_outcome := (\<lambda>n. Some (OtherError ''connection refused''))\<rparr>"

definition state0 :: form_state where
  "state0 = \<lparr>errors = None, message = None\<rparr>"

definition invoice_form :: "string \<Rightarrow> string \<Rightarrow> string \<Rightarrow> form_data" where
  "invoice_form c a s = [(''customerId'', Text c), (''amount'', Text a), (''status'', Text s)]"

definition register_form_of :: "string \<Rightarrow> string \<Rightarrow> string \<Rightarrow> form_data" where
  "register_form_of n e p = [(''name'', Text n), (''email'', Text e), (''password'', Text p)]"

section \<open>Facts about the model\<close>

subsection \<open>The clock\<close>

lemma digit_char_digit: "digit_char d \<in> set ''0123456789''"
proof -
  have "nat (d mod 10) < length ''0123456789''" by simp
  then show ?thesis unfolding digit_char_def by (rule nth_mem)
qed

lemma digit_char_not_T: "CHR ''T'' \<noteq> digit_char d"
  using digit_char_digit [of d] by auto

lemma pad_no_T: "CHR ''T'' \<notin> set (pad k n)"
  by (auto simp: pad_def digit_char_not_T)

lemma iso_date_no_T: "CHR ''T'' \<notin> set (iso_date t)"
  by (simp add: iso_date_def iso_year_def pad_no_T)

text \<open>The date stamp of the actions is the calendar date of the clock reading.\<close>

lemma split_T_0_toISOString: "split_T_0 (toISOString t) = iso_date t"
proof -
  have "\<forall>c \<in> set (iso_date t). c \<noteq> CHR ''T''"
    using iso_date_no_T [of t] by auto
  then show ?thesis
    unfolding split_T_0_def toISOString_def by (simp add: takeWhile_append2)
qed

subsection \<open>The binary exponent\<close>

lemma pow2_powi: "pow2 k = 2 powi k"
  by (simp add: pow2_def power_int_def inverse_eq_divide power_one_over)

lemma bitlen_powi_bounds:
  assumes "0 < n"
  shows "(2::rat) powi (bitlen n - 1) \<le> of_int n" and "of_int n < (2::rat) powi (bitlen n)"
proof -
  have b: "2 ^ nat (bitlen n - 1) \<le> n" "n < 2 ^ nat (bitlen n)"
    using bitlen_bounds [OF assms] by auto
  have pos: "1 \<le> bitlen n"
    using assms by (auto simp: bitlen_alt_def)
  have "(2::rat) powi (bitlen n - 1) = of_int (2 ^ nat (bitlen n - 1))"
    using pos by (simp add: power_int_def)
  also have "\<dots> \<le> of_int n"
    using b(1) by (simp only: of_int_le_iff)
  finally show "(2::rat) powi (bitlen n - 1) \<le> of_int n" .
  have "(of_int n :: rat) < of_int (2 ^ nat (bitlen n))"
    using b(2) by (simp only: of_int_less_iff)
  also have "\<dots> = 2 powi (bitlen n)"
    using pos by (simp add: power_int_def)
  finally show "of_int n < (2::rat) powi (bitlen n)" .
qed

text \<open>\<open>ilog2\<close> is the exponent of the binade of a positive rational.\<close>

lemma ilog2_bounds:
  assumes "0 < q"
  shows "pow2 (ilog2 q) \<le> q \<and> q < pow2 (ilog2 q + 1)"
proof -
  obtain n d where nd: "quotient_of q = (n, d)" by (cases "quotient_of q")
  then have d: "0 < d" by (rule quotient_of_denom_pos)
  have q: "q = of_int n / of_int d" using nd by (rule quotient_of_div)
  have n: "0 < n" using assms d unfolding q by (simp add: zero_less_divide_iff)
  define k where "k = bitlen n - bitlen d"
  note bn = bitlen_powi_bounds [OF n] and bd = bitlen_powi_bounds [OF d]
  have lower: "pow2 (k - 1) \<le> q"
  proof -
    have "(2::rat) powi (k - 1) = 2 powi (bitlen n - 1) / 2 powi (bitlen d)"
      unfolding k_def by (simp add: power_int_diff [symmetric] algebra_simps)
    also have "\<dots> < of_int n / of_int d"
      using bn(1) bd(2) d by (intro frac_less2) simp_all
    finally show ?thesis by (simp add: pow2_powi q)
  qed
  have upper: "q < pow2 (k + 1)"
  proof -
    have "of_int n / of_int d < (2::rat) powi (bitlen n) / 2 powi (bitlen d - 1)"
      using bn(2) bd(1) n by (intro frac_less) simp_all
    also have "\<dots> = 2 powi (k + 1)"
      unfolding k_def by (simp add: power_int_diff [symmetric] algebra_simps)
    finally show ?thesis by (simp add: pow2_powi q)
  qed
  have "ilog2 q = (if pow2 k \<le> q then k else k - 1)"
    by (simp add: ilog2_def nd k_def)
  then show ?thesis
    using lower upper by (auto simp: not_le)
qed

text \<open>The rounding of a positive number that stays finite, step by step.\<close>

lemma fl_pos:
  assumes "0 < q" and "ilog2 q = e" and "max (e - 52) (- 1074) = p"
    and "round_half_even (q / pow2 p) = m" and "of_int m * pow2 p < pow2 1024"
  shows "fl q = Fin (of_int m * pow2 p)"
  using assms by (simp add: fl_def Let_def not_le [symmetric])

subsection \<open>Numbers at the inputs used below\<close>

lemma ilog2_21_2: "ilog2 (21 / 2) = 3"
  by code_simp

lemma ilog2_1050: "ilog2 1050 = 10"
  by code_simp

lemma fl_21_2: "fl (21 / 2) = Fin (21 / 2)"
  by (simp add: fl_def ilog2_21_2 pow2_def round_half_even_def Let_def)

lemma fl_1050: "fl 1050 = Fin 1050"
  by (simp add: fl_def ilog2_1050 pow2_def round_half_even_def Let_def)

lemma unsigned_decimal_10_50: "unsigned_decimal ''10.50'' = Some (21 / 2)"
  by code_simp

lemma trim_10_50: "trim ''10.50'' = ''10.50''"
  by code_simp

lemma number_10_50: "string_to_number ''10.50'' = Fin (21 / 2)"
  by (simp add: string_to_number_def signed_decimal_def unsigned_decimal_10_50 trim_10_50
      fl_21_2)

lemma cents_10_50: "js_mul (Fin (21 / 2)) (Fin 100) = Fin 1050"
  by (simp add: fl_1050)

lemma number_zero: "string_to_number ''0'' = Fin 0"
  by code_simp

lemma number_abc: "string_to_number ''abc'' = NaN"
  by code_simp

text \<open>
  A product that is not exact: \<^verbatim>\<open>Number('0.07') * 100\<close> is the double next above 7, as
  in JavaScript, where it prints as \<^verbatim>\<open>7.000000000000001\<close>.
\<close>

lemma fl_7_100: "fl (7 / 100) = Fin (1261007895663739 / 18014398509481984)"
proof -
  have "ilog2 (7 / 100) = - 4" by code_simp
  moreover have "round_half_even (7 / 100 / pow2 (- 56)) = 5044031582654956" by code_simp
  ultimately have "fl (7 / 100) = Fin (of_int 5044031582654956 * pow2 (- 56))"
    by (intro fl_pos [where e = "- 4"]) (simp_all add: pow2_def)
  then show ?thesis by (simp add: pow2_def)
qed

lemma fl_7_100_times_100:
  "fl (1261007895663739 / 18014398509481984 * 100) = Fin (7881299347898369 / 1125899906842624)"
proof -
  have "ilog2 (1261007895663739 / 18014398509481984 * 100) = 2" by code_simp
  moreover have "round_half_even (1261007895663739 / 18014398509481984 * 100 / pow2 (- 50))
                   = 7881299347898369" by code_simp
  ultimately have "fl (1261007895663739 / 18014398509481984 * 100)
                     = Fin (of_int 7881299347898369 * pow2 (- 50))"
    by (intro fl_pos [where e = 2]) (simp_all add: pow2_def)
  then show ?thesis by (simp add: pow2_def)
qed

lemma unsigned_decimal_0_07: "unsigned_decimal ''0.07'' = Some (7 / 100)"
  by code_simp

lemma trim_0_07: "trim ''0.07'' = ''0.07''"
  by code_simp

lemma cents_0_07:
  "js_mul (string_to_number ''0.07'') (Fin 100) = Fin (7881299347898369 / 1125899906842624)"
proof -
  have "string_to_number ''0.07'' = Fin (1261007895663739 / 18014398509481984)"
    by (simp add: string_to_number_def signed_decimal_def unsigned_decimal_0_07 trim_0_07
        fl_7_100)
  then show ?thesis
    by (simp only: js_mul.simps fl_7_100_times_100)
qed

subsection \<open>The schemas\<close>

lemma amount_schema_rejects:
  assumes "js_Number v = NaN \<or> js_le (js_Number v) (Fin 0)"
  shows "\<exists>m. amount_schema v = Inl [m]"
  using assms by (auto simp: amount_schema_def Let_def)

lemma status_schema_rejects:
  assumes "s \<notin> {Some (Text ''pending''), Some (Text ''paid'')}"
  shows "\<exists>m ms. status_schema s = Inl (m # ms)"
  using assms by (cases s rule: status_schema.cases) auto

lemma customerId_schema_rejects:
  assumes "c \<in> {None, Some File}"
  shows "\<exists>m ms. customerId_schema c = Inl (m # ms)"
  using assms by (cases c rule: customerId_schema.cases) auto

lemma FormSchema_amount_issue:
  assumes "amount_schema a = Inl [m]"
  shows "\<exists>e. FormSchema_safeParse c a s = Inl e \<and> err_amount e = Some [m]"
  using assms
  by (cases "customerId_schema c"; cases "status_schema s")
     (simp_all add: FormSchema_safeParse_def issues_def)

lemma FormSchema_status_issue:
  assumes "status_schema s = Inl (m # ms)"
  shows "\<exists>e. FormSchema_safeParse c a s = Inl e \<and> err_status e = Some (m # ms)"
  using assms
  by (cases "customerId_schema c"; cases "amount_schema a")
     (simp_all add: FormSchema_safeParse_def issues_def)

lemma FormSchema_customerId_issue:
  assumes "customerId_schema c = Inl (m # ms)"
  shows "\<exists>e. FormSchema_safeParse c a s = Inl e \<and> err_customerId e = Some (m # ms)"
  using assms
  by (cases "amount_schema a"; cases "status_schema s")
     (simp_all add: FormSchema_safeParse_def issues_def)

lemma FormSchema_10_50_paid:
  "FormSchema_safeParse (Some (Text c)) (Some (Text ''10.50'')) (Some (Text ''paid''))
     = Inr (c, Fin (21 / 2), Paid)"
  by (simp add: FormSchema_safeParse_def amount_schema_def number_10_50)

lemma string_min_Inr: "string_min n msg v = Inr s \<longleftrightarrow> v = Some (Text s) \<and> n \<le> length s"
  by (cases "(n, msg, v)" rule: string_min.cases) auto

lemma string_email_Inr: "string_email msg v = Inr s \<longleftrightarrow> v = Some (Text s) \<and> email_regex s"
  by (cases "(msg, v)" rule: string_email.cases) auto

text \<open>The registration form parses exactly when its three fields meet their constraints.\<close>

lemma RegisterFormSchema_Some:
  "RegisterFormSchema_safeParse n e p = Some (a, b, c) \<longleftrightarrow>
     n = Some (Text a) \<and> 1 \<le> length a \<and> e = Some (Text b) \<and> email_regex b
     \<and> p = Some (Text c) \<and> 6 \<le> length c"
  unfolding RegisterFormSchema_safeParse_def
  by (auto simp: string_min_Inr string_email_Inr split: sum.splits if_splits)

subsection \<open>Traces and statements\<close>

lemma redirects_append: "redirects (xs @ ys) = redirects xs @ redirects ys"
  by (induction xs rule: redirects.induct) simp_all

lemma revalidations_append: "revalidations (xs @ ys) = revalidations xs @ revalidations ys"
  by (induction xs rule: revalidations.induct) simp_all

lemma statements_append: "statements (xs @ ys) = statements xs @ statements ys"
  by (induction xs rule: statements.induct) simp_all

lemma sql_raises:
  assumes "sql_outcome w (sql_count w) = Some e"
  shows "sql st w = (Inl e, w\<lparr>sql_count := Suc (sql_count w), trace := trace w @ [Sql st]\<rparr>)"
  using assms by (simp add: sql_def)

lemma sql_runs:
  assumes "sql_outcome w (sql_count w) = None"
  shows "sql st w =
    (Inr (fst (run_stmt st (new_id w (sql_count w))
                 (w\<lparr>sql_count := Suc (sql_count w), trace := trace w @ [Sql st]\<rparr>))),
     snd (run_stmt st (new_id w (sql_count w))
                 (w\<lparr>sql_count := Suc (sql_count w), trace := trace w @ [Sql st]\<rparr>)))"
  using assms by (simp add: sql_def Let_def case_prod_beta)

lemma select_existing:
  "0 < length (map usr_id (filter (\<lambda>u. usr_email u = e) us)) \<longleftrightarrow> e \<in> usr_email ` set us"
  by (induction us) auto

subsection \<open>The runs of the invoice actions\<close>

lemma createInvoice_invalid:
  assumes "FormSchema_safeParse (formData_get fd ''customerId'')
             (formData_get fd ''amount'') (formData_get fd ''status'') = Inl e"
  shows "createInvoice prev fd w =
           (Returns \<lparr>errors = Some e,
                     message = Some ''Missing Fields. Failed to create Invoice.''\<rparr>, w)"
  using assms by (simp add: createInvoice_def CreateInvoice_safeParse_def)

lemma createInvoice_raises:
  assumes "FormSchema_safeParse (formData_get fd ''customerId'')
             (formData_get fd ''amount'') (formData_get fd ''status'') = Inr (c, a, s)"
    and "sql_outcome w (sql_count w) = Some err"
  shows "createInvoice prev fd w =
     (Returns \<lparr>errors = None, message = Some ''Database Error: Failed to Create Invoice.''\<rparr>,
      w\<lparr>sql_count := Suc (sql_count w),
        trace := trace w @
          [Sql (InsertInvoice c (js_mul a (Fin 100)) s (iso_date (now w)))]\<rparr>)"
  using assms
  by (simp add: createInvoice_def CreateInvoice_safeParse_def Let_def sql_raises
      split_T_0_toISOString del: js_mul.simps)

lemma createInvoice_runs:
  assumes "FormSchema_safeParse (formData_get fd ''customerId'')
             (formData_get fd ''amount'') (formData_get fd ''status'') = Inr (c, a, s)"
    and "sql_outcome w (sql_count w) = None"
  shows "createInvoice prev fd w =
     (Redirects ''/dashboard/invoices'',
      w\<lparr>invoices := invoices w @
           [\<lparr>inv_id = new_id w (sql_count w), inv_customer_id = c,
             inv_amount = js_mul a (Fin 100), inv_status = s, inv_date = iso_date (now w)\<rparr>],
        sql_count := Suc (sql_count w),
        trace := trace w @
          [Sql (InsertInvoice c (js_mul a (Fin 100)) s (iso_date (now w))),
           RevalidatePath ''/dashboard/invoices'', Redirect ''/dashboard/invoices'']\<rparr>)"
  using assms
  by (simp add: createInvoice_def CreateInvoice_safeParse_def Let_def sql_runs
      split_T_0_toISOString redirect_def revalidatePath_def emit_def del: js_mul.simps)

lemma updateInvoice_invalid:
  assumes "FormSchema_safeParse (formData_get fd ''customerId'')
             (formData_get fd ''amount'') (formData_get fd ''status'') = Inl e"
  shows "updateInvoice k prev fd w =
           (Returns \<lparr>errors = Some e,
                     message = Some ''Missing Fields. Failed to update Invoice.''\<rparr>, w)"
  using assms by (simp add: updateInvoice_def UpdateInvoice_safeParse_def)

lemma updateInvoice_raises:
  assumes "FormSchema_safeParse (formData_get fd ''customerId'')
             (formData_get fd ''amount'') (formData_get fd ''status'') = Inr (c, a, s)"
    and "sql_outcome w (sql_count w) = Some err"
  shows "updateInvoice k prev fd w =
     (Returns \<lparr>errors = None, message = Some ''Database Error: Failed to Update Invoice.''\<rparr>,
      w\<lparr>sql_count := Suc (sql_count w),
        trace := trace w @ [Sql (UpdateInvoiceSet c (js_mul a (Fin 100)) s k)]\<rparr>)"
  using assms
  by (simp add: updateInvoice_def UpdateInvoice_safeParse_def Let_def sql_raises
      del: js_mul.simps)

lemma updateInvoice_runs:
  assumes "FormSchema_safeParse (formData_get fd ''customerId'')
             (formData_get fd ''amount'') (formData_get fd ''status'') = Inr (c, a, s)"
    and "sql_outcome w (sql_count w) = None"
  shows "fst (updateInvoice k prev fd w) = Redirects ''/dashboard/invoices''
       \<and> trace (snd (updateInvoice k prev fd w)) =
           trace w @ [Sql (UpdateInvoiceSet c (js_mul a (Fin 100)) s k),
                      RevalidatePath ''/dashboard/invoices'', Redirect ''/dashboard/invoices'']"
  using assms
  by (simp add: updateInvoice_def UpdateInvoice_safeParse_def Let_def sql_runs
      redirect_def revalidatePath_def emit_def del: js_mul.simps)

subsection \<open>The runs of the registration\<close>

lemma register_invalid:
  assumes "register_form fd = None"
  shows "register prev fd w = (Returns ''Missing Fields. Failed to Register.'', w)"
  using assms by (simp add: register_def register_form_def)

lemma register_select_raises:
  assumes "register_form fd = Some (n, e, p)" and "sql_outcome w (sql_count w) = Some err"
  shows "register prev fd w =
     (Returns ''Database Error: Failed to register.'',
      w\<lparr>sql_count := Suc (sql_count w),
        trace := trace w @ [Sql (SelectUserId e), ConsoleError ''Registration Error:'' err]\<rparr>)"
  using assms by (simp add: register_def register_form_def sql_raises emit_def)

lemma register_exists:
  assumes "register_form fd = Some (n, e, p)" and "sql_outcome w (sql_count w) = None"
    and "e \<in> usr_email ` set (users w)"
  shows "register prev fd w =
     (Returns ''User with this email already exists.'',
      w\<lparr>sql_count := Suc (sql_count w), trace := trace w @ [Sql (SelectUserId e)]\<rparr>)"
  using assms select_existing [of e "users w"]
  by (simp add: register_def register_form_def sql_runs)

lemma register_insert_raises:
  assumes "register_form fd = Some (n, e, p)" and "sql_outcome w (sql_count w) = None"
    and "e \<notin> usr_email ` set (users w)" and "sql_outcome w (Suc (sql_count w)) = Some err"
  shows "register prev fd w =
     (Returns ''Database Error: Failed to register.'',
      w\<lparr>sql_count := Suc (Suc (sql_count w)),
        trace := trace w @ [Sql (SelectUserId e), BcryptHash p 10,
                            Sql (InsertUser n e (bcrypt_hash w p 10)),
                            ConsoleError ''Registration Error:'' err]\<rparr>)"
  using assms select_existing [of e "users w"]
  by (simp add: register_def register_form_def sql_runs sql_raises bcryptjs_hash_def emit_def)

lemma register_inserts:
  assumes "register_form fd = Some (n, e, p)" and "sql_outcome w (sql_count w) = None"
    and "e \<notin> usr_email ` set (users w)" and "sql_outcome w (Suc (sql_count w)) = None"
  shows "register prev fd w =
     (Redirects ''/login'',
      w\<lparr>users := users w @
           [\<lparr>usr_id = new_id w (Suc (sql_count w)), usr_name = n, usr_email = e,
             usr_password = bcrypt_hash w p 10\<rparr>],
        sql_count := Suc (Suc (sql_count w)),
        trace := trace w @ [Sql (SelectUserId e), BcryptHash p 10,
                            Sql (InsertUser n e (bcrypt_hash w p 10)),
                            Redirect ''/login'']\<rparr>)"
  using assms select_existing [of e "users w"]
  by (simp add: register_def register_form_def sql_runs bcryptjs_hash_def emit_def redirect_def)

subsection \<open>Where each action redirects\<close>

lemma createInvoice_redirects:
  "redirects (trace (snd (createInvoice prev fd w))) =
     redirects (trace w) @
       (if invoice_form_valid fd \<and> sql_outcome w (sql_count w) = None
        then [''/dashboard/invoices''] else [])"
proof (cases "FormSchema_safeParse (formData_get fd ''customerId'')
             (formData_get fd ''amount'') (formData_get fd ''status'')")
  case (Inl e)
  then show ?thesis
    by (simp add: createInvoice_invalid invoice_form_valid_def)
next
  case (Inr t)
  then obtain c a s where t: "FormSchema_safeParse (formData_get fd ''customerId'')
             (formData_get fd ''amount'') (formData_get fd ''status'') = Inr (c, a, s)"
    by (cases t) auto
  then have v: "invoice_form_valid fd" by (simp add: invoice_form_valid_def)
  show ?thesis
  proof (cases "sql_outcome w (sql_count w)")
    case None
    then show ?thesis using v by (simp add: createInvoice_runs [OF t] redirects_append)
  next
    case (Some err)
    then show ?thesis by (simp add: createInvoice_raises [OF t] redirects_append)
  qed
qed

lemma updateInvoice_redirects:
  "redirects (trace (snd (updateInvoice k prev fd w))) =
     redirects (trace w) @
       (if invoice_form_valid fd \<and> sql_outcome w (sql_count w) = None
        then [''/dashboard/invoices''] else [])"
proof (cases "FormSchema_safeParse (formData_get fd ''customerId'')
             (formData_get fd ''amount'') (formData_get fd ''status'')")
  case (Inl e)
  then show ?thesis
    by (simp add: updateInvoice_invalid invoice_form_valid_def)
next
  case (Inr t)
  then obtain c a s where t: "FormSchema_safeParse (formData_get fd ''customerId'')
             (formData_get fd ''amount'') (formData_get fd ''status'') = Inr (c, a, s)"
    by (cases t) auto
  then have v: "invoice_form_valid fd" by (simp add: invoice_form_valid_def)
  show ?thesis
  proof (cases "sql_outcome w (sql_count w)")
    case None
    then show ?thesis using v by (simp add: updateInvoice_runs [OF t] redirects_append)
  next
    case (Some err)
    then show ?thesis by (simp add: updateInvoice_raises [OF t] redirects_append)
  qed
qed

lemma register_redirects:
  "redirects (trace (snd (register prev fd w))) =
     redirects (trace w) @
       (case register_form fd of
          None \<Rightarrow> []
        | Some (n, e, p) \<Rightarrow>
            if sql_outcome w (sql_count w) = None \<and> e \<notin> usr_email ` set (users w)
               \<and> sql_outcome w (Suc (sql_count w)) = None
            then [''/login''] else [])"
proof (cases "register_form fd")
  case None
  then show ?thesis by (simp add: register_invalid)
next
  case (Some t)
  then obtain n e p where t: "register_form fd = Some (n, e, p)"
    by (cases t) auto
  show ?thesis
  proof (cases "sql_outcome w (sql_count w)")
    case (Some err)
    then show ?thesis using t by (simp add: register_select_raises redirects_append)
  next
    case None
    note sel = this
    show ?thesis
    proof (cases "e \<in> usr_email ` set (users w)")
      case True
      then show ?thesis using t sel by (simp add: register_exists redirects_append)
    next
      case False
      then show ?thesis
        using t sel
        by (cases "sql_outcome w (Suc (sql_count w))")
           (simp_all add: register_inserts register_insert_raises redirects_append)
    qed
  qed
qed

lemma deleteInvoice_redirects:
  "redirects (trace (snd (deleteInvoice k w))) = redirects (trace w)"
  by (cases "sql_outcome w (sql_count w)")
     (simp_all add: deleteInvoice_def sql_raises sql_runs emit_def revalidatePath_def
        redirects_append split: prod.splits)

lemma authenticate_redirects:
  "redirects (trace (snd (authenticate prev fd w))) = redirects (trace w)"
  by (simp add: authenticate_def signIn_def emit_def redirects_append
      split: option.splits js_error.splits)

subsection \<open>The whole run of each action\<close>

lemma updateInvoice_updates:
  assumes "FormSchema_safeParse (formData_get fd ''customerId'')
             (formData_get fd ''amount'') (formData_get fd ''status'') = Inr (c, a, s)"
    and "sql_outcome w (sql_count w) = None"
  shows "updateInvoice k prev fd w =
     (Redirects ''/dashboard/invoices'',
      w\<lparr>invoices :=
           map (\<lambda>r. if inv_id r = k
                     then r\<lparr>inv_customer_id := c, inv_amount := js_mul a (Fin 100),
                            inv_status := s\<rparr>
                     else r) (invoices w),
        sql_count := Suc (sql_count w),
        trace := trace w @
          [Sql (UpdateInvoiceSet c (js_mul a (Fin 100)) s k),
           RevalidatePath ''/dashboard/invoices'', Redirect ''/dashboard/invoices'']\<rparr>)"
  using assms
  by (simp add: updateInvoice_def UpdateInvoice_safeParse_def Let_def sql_runs
      redirect_def revalidatePath_def emit_def del: js_mul.simps)

lemma deleteInvoice_run:
  "deleteInvoice k w =
     (case sql_outcome w (sql_count w) of
        None \<Rightarrow>
          (Returns (),
           w\<lparr>invoices := filter (\<lambda>r. inv_id r \<noteq> k) (invoices w),
              sql_count := Suc (sql_count w),
              trace := trace w @
                [Sql (DeleteInvoice k), RevalidatePath ''/dashboard/invoices'']\<rparr>)
      | Some err \<Rightarrow>
          (Returns (),
           w\<lparr>sql_count := Suc (sql_count w),
              trace := trace w @ [Sql (DeleteInvoice k), ConsoleLog err]\<rparr>))"
  by (cases "sql_outcome w (sql_count w)")
     (simp_all add: deleteInvoice_def sql_raises sql_runs emit_def revalidatePath_def)

lemma authenticate_run:
  "authenticate prev fd w =
     (case signIn_outcome w ''credentials'' fd of
        None \<Rightarrow> Returns None
      | Some (AuthError t) \<Rightarrow>
          Returns (Some (if t = ''CredentialsSignin'' then ''Invalid credentials.''
                         else ''Something went wrong.''))
      | Some (OtherError x) \<Rightarrow> Throws (OtherError x),
      w\<lparr>trace := trace w @ [SignIn ''credentials'' fd]\<rparr>)"
  by (simp add: authenticate_def signIn_def emit_def split: option.splits js_error.splits)

lemma createInvoice_run:
  "createInvoice st fd w =
     (case FormSchema_safeParse (formData_get fd ''customerId'')
             (formData_get fd ''amount'') (formData_get fd ''status'') of
        Inl fieldErrors \<Rightarrow>
          (Returns \<lparr>errors = Some fieldErrors,
                    message = Some ''Missing Fields. Failed to create Invoice.''\<rparr>, w)
      | Inr (c, a, s) \<Rightarrow>
          (case sql_outcome w (sql_count w) of
             None \<Rightarrow>
               (Redirects ''/dashboard/invoices'',
                w\<lparr>invoices := invoices w @
                     [\<lparr>inv_id = new_id w (sql_count w), inv_customer_id = c,
                       inv_amount = js_mul a (Fin 100), inv_status = s,
                       inv_date = iso_date (now w)\<rparr>],
                   sql_count := Suc (sql_count w),
                   trace := trace w @
                     [Sql (InsertInvoice c (js_mul a (Fin 100)) s (iso_date (now w))),
                      RevalidatePath ''/dashboard/invoices'',
                      Redirect ''/dashboard/invoices'']\<rparr>)
           | Some err \<Rightarrow>
               (Returns \<lparr>errors = None,
                         message = Some ''Database Error: Failed to Create Invoice.''\<rparr>,
                w\<lparr>sql_count := Suc (sql_count w),
                   trace := trace w @
                     [Sql (InsertInvoice c (js_mul a (Fin 100)) s (iso_date (now w)))]\<rparr>)))"
proof (cases "FormSchema_safeParse (formData_get fd ''customerId'')
             (formData_get fd ''amount'') (formData_get fd ''status'')")
  case (Inl e)
  from createInvoice_invalid [OF Inl] show ?thesis
    by (simp only: Inl sum.case)
next
  case (Inr t)
  obtain c a s where t: "t = (c, a, s)" by (cases t)
  note p = Inr [unfolded t]
  show ?thesis
  proof (cases "sql_outcome w (sql_count w)")
    case None
    from createInvoice_runs [OF p None] show ?thesis
      by (simp only: p None sum.case option.case prod.case)
  next
    case (Some err)
    from createInvoice_raises [OF p Some] show ?thesis
      by (simp only: p Some sum.case option.case prod.case)
  qed
qed

lemma updateInvoice_run:
  "updateInvoice k st fd w =
     (case FormSchema_safeParse (formData_get fd ''customerId'')
             (formData_get fd ''amount'') (formData_get fd ''status'') of
        Inl fieldErrors \<Rightarrow>
          (Returns \<lparr>errors = Some fieldErrors,
                    message = Some ''Missing Fields. Failed to update Invoice.''\<rparr>, w)
      | Inr (c, a, s) \<Rightarrow>
          (case sql_outcome w (sql_count w) of
             None \<Rightarrow>
               (Redirects ''/dashboard/invoices'',
                w\<lparr>invoices :=
                     map (\<lambda>r. if inv_id r = k
                               then r\<lparr>inv_customer_id := c, inv_amount := js_mul a (Fin 100),
                                      inv_status := s\<rparr>
                               else r) (invoices w),
                   sql_count := Suc (sql_count w),
                   trace := trace w @
                     [Sql (UpdateInvoiceSet c (js_mul a (Fin 100)) s k),
                      RevalidatePath ''/dashboard/invoices'',
                      Redirect ''/dashboard/invoices'']\<rparr>)
           | Some err \<Rightarrow>
               (Returns \<lparr>errors = None,
                         message = Some ''Database Error: Failed to Update Invoice.''\<rparr>,
                w\<lparr>sql_count := Suc (sql_count w),
                   trace := trace w @
                     [Sql (UpdateInvoiceSet c (js_mul a (Fin 100)) s k)]\<rparr>)))"
proof (cases "FormSchema_safeParse (formData_get fd ''customerId'')
             (formData_get fd ''amount'') (formData_get fd ''status'')")
  case (Inl e)
  from updateInvoice_invalid [OF Inl] show ?thesis
    by (simp only: Inl sum.case)
next
  case (Inr t)
  obtain c a s where t: "t = (c, a, s)" by (cases t)
  note p = Inr [unfolded t]
  show ?thesis
  proof (cases "sql_outcome w (sql_count w)")
    case None
    from updateInvoice_updates [OF p None] show ?thesis
      by (simp only: p None sum.case option.case prod.case)
  next
    case (Some err)
    from updateInvoice_raises [OF p Some] show ?thesis
      by (simp only: p Some sum.case option.case prod.case)
  qed
qed

lemma register_run:
  "register prev fd w =
     (case register_form fd of
        None \<Rightarrow> (Returns ''Missing Fields. Failed to Register.'', w)
      | Some (n, e, p) \<Rightarrow>
          (case sql_outcome w (sql_count w) of
             Some err \<Rightarrow>
               (Returns ''Database Error: Failed to register.'',
                w\<lparr>sql_count := Suc (sql_count w),
                   trace := trace w @
                     [Sql (SelectUserId e), ConsoleError ''Registration Error:'' err]\<rparr>)
           | None \<Rightarrow>
               if e \<in> usr_email ` set (users w)
               then (Returns ''User with this email already exists.'',
                     w\<lparr>sql_count := Suc (sql_count w),
                        trace := trace w @ [Sql (SelectUserId e)]\<rparr>)
               else (case sql_outcome w (Suc (sql_count w)) of
                  Some err \<Rightarrow>
                    (Returns ''Database Error: Failed to register.'',
                     w\<lparr>sql_count := Suc (Suc (sql_count w)),
                        trace := trace w @
                          [Sql (SelectUserId e), BcryptHash p 10,
                           Sql (InsertUser n e (bcrypt_hash w p 10)),
                           ConsoleError ''Registration Error:'' err]\<rparr>)
                | None \<Rightarrow>
                    (Redirects ''/login'',
                     w\<lparr>users := users w @
                          [\<lparr>usr_id = new_id w (Suc (sql_count w)), usr_name = n,
                            usr_email = e, usr_password = bcrypt_hash w p 10\<rparr>],
                        sql_count := Suc (Suc (sql_count w)),
                        trace := trace w @
                          [Sql (SelectUserId e), BcryptHash p 10,
                           Sql (InsertUser n e (bcrypt_hash w p 10)),
                           Redirect ''/login'']\<rparr>))))"
proof (cases "register_form fd")
  case None
  from register_invalid [OF None] show ?thesis
    by (simp only: None option.case)
next
  case (Some t)
  obtain n e p where t: "t = (n, e, p)" by (cases t)
  note f = Some [unfolded t]
  show ?thesis
  proof (cases "sql_outcome w (sql_count w)")
    case (Some err)
    from register_select_raises [OF f Some] show ?thesis
      by (simp only: f Some option.case prod.case)
  next
    case None
    note sel = this
    show ?thesis
    proof (cases "e \<in> usr_email ` set (users w)")
      case True
      from register_exists [OF f sel True] show ?thesis
        by (simp only: f sel True option.case prod.case if_True)
    next
      case False
      show ?thesis
      proof (cases "sql_outcome w (Suc (sql_count w))")
        case None
        from register_inserts [OF f sel False None] show ?thesis
          by (simp only: f sel False None option.case prod.case if_False)
      next
        case (Some err)
        from register_insert_raises [OF f sel False Some] show ?thesis
          by (simp only: f sel False Some option.case prod.case if_False)
      qed
    qed
  qed
qed

subsection \<open>The concrete world and forms\<close>

lemma get_invoice_form:
  "formData_get (invoice_form c a s) ''customerId'' = Some (Text c)"
  "formData_get (invoice_form c a s) ''amount'' = Some (Text a)"
  "formData_get (invoice_form c a s) ''status'' = Some (Text s)"
  by (simp_all add: formData_get_def invoice_form_def)

lemma get_register_form_of:
  "formData_get (register_form_of n e p) ''name'' = Some (Text n)"
  "formData_get (register_form_of n e p) ''email'' = Some (Text e)"
  "formData_get (register_form_of n e p) ''password'' = Some (Text p)"
  by (simp_all add: formData_get_def register_form_of_def)

lemma world0_fields:
  "invoices world0 = []"
  "sql_count world0 = 0"
  "trace world0 = []"
  "sql_outcome world0 n = None"
  "new_id world0 n = ''row'' @ replicate n CHR ''+''"
  "bcrypt_hash world0 pw c = ''$2a$10$'' @ rev pw"
  "signIn_outcome world0 pr fd = Some (AuthError ''CredentialsSignin'')"
  "usr_email ` set (users world0) = {''ann@example.org''}"
  by (simp_all add: world0_def)

lemma world_down_fields:
  "sql_count world_down = 0"
  "trace world_down = []"
  "sql_outcome world_down n = Some (OtherError ''connection refused'')"
  by (simp_all add: world_down_def world0_def)

lemma world0_today: "iso_date (now world0) = ''2024-03-07''"
  by code_simp

lemma world_down_today: "iso_date (now world_down) = ''2024-03-07''"
  by code_simp

lemma email_ann: "email_regex ''ann@example.org''"
  by code_simp

lemma email_bob: "email_regex ''bob@example.org''"
  by code_simp

lemma FormSchema_10_50_draft:
  "FormSchema_safeParse (Some (Text c)) (Some (Text ''10.50'')) (Some (Text ''draft''))
     = Inl \<lparr>err_customerId = None, err_amount = None,
             err_status = Some [''Invalid enum value. Expected 'pending' | 'paid', received ''
                                @ [CHR 39] @ ''draft'' @ [CHR 39]]\<rparr>"
  by (simp add: FormSchema_safeParse_def amount_schema_def number_10_50 issues_def)

lemma register_form_bob:
  "register_form (register_form_of ''Bob'' ''bob@example.org'' ''123456'')
     = Some (''Bob'', ''bob@example.org'', ''123456'')"
  by (simp add: register_form_def RegisterFormSchema_Some get_register_form_of email_bob)

lemma register_form_ann:
  "register_form (register_form_of ''Bob'' ''ann@example.org'' ''123456'')
     = Some (''Bob'', ''ann@example.org'', ''123456'')"
  by (simp add: register_form_def RegisterFormSchema_Some get_register_form_of email_ann)

lemma invoice_form_valid_10_50: "invoice_form_valid (invoice_form c ''10.50'' ''paid'')"
  by (simp add: invoice_form_valid_def get_invoice_form FormSchema_10_50_paid)

section \<open>The claims\<close>

subsection \<open>C1: creating an invoice from a valid form\<close>

text \<open>
  C1. For the form with customerId \<^verbatim>\<open>c1\<close>, amount \<^verbatim>\<open>10.50\<close> and status \<^verbatim>\<open>paid\<close>,
  \<open>createInvoice\<close> sends one statement, the insert of a row with amount \<open>1050\<close> (the
  validated amount times 100) and with the calendar date of the clock reading as its
  date. When the statement succeeds the row is in the table, and the action invalidates
  the path \<^verbatim>\<open>/dashboard/invoices\<close> once and redirects to it once; when the statement
  raises an error the action returns the database message and does neither.
\<close>

theorem createInvoice_valid_input:
  assumes "formData_get fd ''customerId'' = Some (Text ''c1'')"
    and "formData_get fd ''amount'' = Some (Text ''10.50'')"
    and "formData_get fd ''status'' = Some (Text ''paid'')"
  shows "createInvoice prevState fd w =
     (case sql_outcome w (sql_count w) of
        None \<Rightarrow>
          (Redirects ''/dashboard/invoices'',
           w\<lparr>invoices := invoices w @
                [\<lparr>inv_id = new_id w (sql_count w), inv_customer_id = ''c1'',
                  inv_amount = Fin 1050, inv_status = Paid, inv_date = iso_date (now w)\<rparr>],
              sql_count := Suc (sql_count w),
              trace := trace w @
                [Sql (InsertInvoice ''c1'' (Fin 1050) Paid (iso_date (now w))),
                 RevalidatePath ''/dashboard/invoices'',
                 Redirect ''/dashboard/invoices'']\<rparr>)
      | Some err \<Rightarrow>
          (Returns \<lparr>errors = None,
                    message = Some ''Database Error: Failed to Create Invoice.''\<rparr>,
           w\<lparr>sql_count := Suc (sql_count w),
              trace := trace w @
                [Sql (InsertInvoice ''c1'' (Fin 1050) Paid (iso_date (now w)))]\<rparr>))"
proof -
  have p: "FormSchema_safeParse (formData_get fd ''customerId'')
          (formData_get fd ''amount'') (formData_get fd ''status'') = Inr (''c1'', Fin (21 / 2), Paid)"
    by (simp only: assms FormSchema_10_50_paid)
  show ?thesis
  proof (cases "sql_outcome w (sql_count w)")
    case None
    from createInvoice_runs [OF p None] show ?thesis
      by (simp only: cents_10_50 None option.case)
  next
    case (Some err)
    from createInvoice_raises [OF p Some] show ?thesis
      by (simp only: cents_10_50 Some option.case)
  qed
qed

theorem createInvoice_valid_input_witness:
  "formData_get (invoice_form ''c1'' ''10.50'' ''paid'') ''amount'' = Some (Text ''10.50'')
   \<and> fst (createInvoice state0 (invoice_form ''c1'' ''10.50'' ''paid'') world0)
       = Redirects ''/dashboard/invoices''
   \<and> invoices (snd (createInvoice state0 (invoice_form ''c1'' ''10.50'' ''paid'') world0))
       = [\<lparr>inv_id = ''row'', inv_customer_id = ''c1'', inv_amount = Fin 1050,
           inv_status = Paid, inv_date = ''2024-03-07''\<rparr>]
   \<and> trace (snd (createInvoice state0 (invoice_form ''c1'' ''10.50'' ''paid'') world0))
       = [Sql (InsertInvoice ''c1'' (Fin 1050) Paid ''2024-03-07''),
          RevalidatePath ''/dashboard/invoices'', Redirect ''/dashboard/invoices'']
   \<and> trace (snd (createInvoice state0 (invoice_form ''c1'' ''10.50'' ''paid'') world_down))
       = [Sql (InsertInvoice ''c1'' (Fin 1050) Paid ''2024-03-07'')]"
  using createInvoice_valid_input [OF get_invoice_form, where prevState = state0 and w = world0]
    createInvoice_valid_input [OF get_invoice_form, where prevState = state0 and w = world_down]
  by (simp add: get_invoice_form world0_fields world_down_fields world0_today world_down_today)

subsection \<open>C2: an amount that is not a positive number\<close>

text \<open>
  C2. For every form whose amount field is coerced to \<open>NaN\<close> (not a number) or to a number
  less than or equal to zero, \<open>createInvoice\<close> and \<open>updateInvoice\<close> both return a
  validation result with a message on the field \<^verbatim>\<open>amount\<close>, and leave the world as it
  was: no statement is sent.
\<close>

theorem invoice_amount_rejected:
  assumes "js_Number (formData_get fd ''amount'') = NaN
           \<or> js_le (js_Number (formData_get fd ''amount'')) (Fin 0)"
  shows "rejected_on err_amount (fst (createInvoice prev fd w))
         \<and> snd (createInvoice prev fd w) = w
         \<and> rejected_on err_amount (fst (updateInvoice k prev fd w))
         \<and> snd (updateInvoice k prev fd w) = w"
proof -
  obtain m where "amount_schema (formData_get fd ''amount'') = Inl [m]"
    using amount_schema_rejects [OF assms] by blast
  then obtain e where e:
    "FormSchema_safeParse (formData_get fd ''customerId'')
       (formData_get fd ''amount'') (formData_get fd ''status'') = Inl e"
    "err_amount e = Some [m]"
    using FormSchema_amount_issue by blast
  show ?thesis
    by (simp add: createInvoice_invalid [OF e(1)] updateInvoice_invalid [OF e(1)] e(2))
qed

theorem invoice_amount_rejected_witness:
  "js_le (js_Number (formData_get (invoice_form ''c1'' ''0'' ''paid'') ''amount'')) (Fin 0)
   \<and> rejected_on err_amount (fst (createInvoice state0 (invoice_form ''c1'' ''0'' ''paid'') world0))
   \<and> snd (createInvoice state0 (invoice_form ''c1'' ''0'' ''paid'') world0) = world0
   \<and> js_Number (formData_get (invoice_form ''c1'' ''abc'' ''paid'') ''amount'') = NaN
   \<and> rejected_on err_amount
        (fst (updateInvoice ''inv1'' state0 (invoice_form ''c1'' ''abc'' ''paid'') world0))
   \<and> snd (updateInvoice ''inv1'' state0 (invoice_form ''c1'' ''abc'' ''paid'') world0) = world0"
proof -
  have z: "js_le (js_Number (formData_get (invoice_form ''c1'' ''0'' ''paid'') ''amount'')) (Fin 0)"
    by (simp add: get_invoice_form number_zero)
  have n: "js_Number (formData_get (invoice_form ''c1'' ''abc'' ''paid'') ''amount'') = NaN"
    by (simp add: get_invoice_form number_abc)
  show ?thesis
    using z n
      invoice_amount_rejected [OF disjI2, OF z, of state0 world0 "''inv1''"]
      invoice_amount_rejected [OF disjI1, OF n, of state0 world0 "''inv1''"]
    by simp
qed

subsection \<open>C3: a status outside the two values\<close>

text \<open>
  C3. For every form whose status field is anything but the string \<^verbatim>\<open>pending\<close> or the
  string \<^verbatim>\<open>paid\<close> (another string, a file, or no field), \<open>createInvoice\<close> and
  \<open>updateInvoice\<close> both return a validation result with a message on the field
  \<^verbatim>\<open>status\<close>, and leave the world as it was: no statement is sent.
\<close>

theorem invoice_status_rejected:
  assumes "formData_get fd ''status'' \<notin> {Some (Text ''pending''), Some (Text ''paid'')}"
  shows "rejected_on err_status (fst (createInvoice prev fd w))
         \<and> snd (createInvoice prev fd w) = w
         \<and> rejected_on err_status (fst (updateInvoice k prev fd w))
         \<and> snd (updateInvoice k prev fd w) = w"
proof -
  obtain m ms where "status_schema (formData_get fd ''status'') = Inl (m # ms)"
    using status_schema_rejects [OF assms] by blast
  then obtain e where e:
    "FormSchema_safeParse (formData_get fd ''customerId'')
       (formData_get fd ''amount'') (formData_get fd ''status'') = Inl e"
    "err_status e = Some (m # ms)"
    using FormSchema_status_issue by blast
  show ?thesis
    by (simp add: createInvoice_invalid [OF e(1)] updateInvoice_invalid [OF e(1)] e(2))
qed

theorem invoice_status_rejected_witness:
  "formData_get (invoice_form ''c1'' ''10.50'' ''draft'') ''status''
     \<notin> {Some (Text ''pending''), Some (Text ''paid'')}
   \<and> rejected_on err_status
        (fst (createInvoice state0 (invoice_form ''c1'' ''10.50'' ''draft'') world0))
   \<and> snd (createInvoice state0 (invoice_form ''c1'' ''10.50'' ''draft'') world0) = world0
   \<and> rejected_on err_status
        (fst (updateInvoice ''inv1'' state0 (invoice_form ''c1'' ''10.50'' ''draft'') world0))
   \<and> snd (updateInvoice ''inv1'' state0 (invoice_form ''c1'' ''10.50'' ''draft'') world0) = world0"
proof -
  have h: "formData_get (invoice_form ''c1'' ''10.50'' ''draft'') ''status''
             \<notin> {Some (Text ''pending''), Some (Text ''paid'')}"
    by (simp add: get_invoice_form)
  show ?thesis
    using h invoice_status_rejected [OF h, of state0 world0 "''inv1''"] by simp
qed

subsection \<open>C4: the customer identifier\<close>

text \<open>
  The schema of \<^verbatim>\<open>customerId\<close> is \<^verbatim>\<open>z.string\<close> with no length constraint. With the empty
  string as customerId and the other fields valid, \<open>createInvoice\<close> reports no issue on
  the field and inserts a row whose customer reference is the empty string.
\<close>

theorem createInvoice_empty_customerId_counterexample:
  "formData_get (invoice_form '''' ''10.50'' ''paid'') ''customerId'' = Some (Text '''')
   \<and> \<not> rejected_on err_customerId
          (fst (createInvoice state0 (invoice_form '''' ''10.50'' ''paid'') world0))
   \<and> fst (createInvoice state0 (invoice_form '''' ''10.50'' ''paid'') world0)
       = Redirects ''/dashboard/invoices''
   \<and> invoices (snd (createInvoice state0 (invoice_form '''' ''10.50'' ''paid'') world0))
       = [\<lparr>inv_id = ''row'', inv_customer_id = '''', inv_amount = Fin 1050,
           inv_status = Paid, inv_date = ''2024-03-07''\<rparr>]"
proof -
  have p: "FormSchema_safeParse
             (formData_get (invoice_form '''' ''10.50'' ''paid'') ''customerId'')
             (formData_get (invoice_form '''' ''10.50'' ''paid'') ''amount'')
             (formData_get (invoice_form '''' ''10.50'' ''paid'') ''status'')
           = Inr ('''', Fin (21 / 2), Paid)"
    by (simp only: get_invoice_form FormSchema_10_50_paid)
  have h: "sql_outcome world0 (sql_count world0) = None"
    by (simp add: world0_fields)
  show ?thesis
    using createInvoice_runs [OF p h, of state0]
    by (simp add: get_invoice_form cents_10_50 world0_fields world0_today del: js_mul.simps)
qed

text \<open>
  C4, amended. \<open>createInvoice\<close> requires customerId to be a string, and accepts the empty
  one: for every form whose customerId is not a string (the field is missing, or it is a
  file), validation fails with a message on the field \<^verbatim>\<open>customerId\<close>, and the world is
  left as it was: no row is inserted.
\<close>

theorem createInvoice_customerId_not_string:
  assumes "formData_get fd ''customerId'' \<in> {None, Some File}"
  shows "rejected_on err_customerId (fst (createInvoice prev fd w))
         \<and> snd (createInvoice prev fd w) = w"
proof -
  obtain m ms where "customerId_schema (formData_get fd ''customerId'') = Inl (m # ms)"
    using customerId_schema_rejects [OF assms] by blast
  then obtain e where e:
    "FormSchema_safeParse (formData_get fd ''customerId'')
       (formData_get fd ''amount'') (formData_get fd ''status'') = Inl e"
    "err_customerId e = Some (m # ms)"
    using FormSchema_customerId_issue by blast
  show ?thesis
    by (simp add: createInvoice_invalid [OF e(1)] e(2))
qed

theorem createInvoice_customerId_not_string_witness:
  "formData_get [(''amount'', Text ''10.50''), (''status'', Text ''paid'')] ''customerId''
     \<in> {None, Some File}
   \<and> rejected_on err_customerId
        (fst (createInvoice state0 [(''amount'', Text ''10.50''), (''status'', Text ''paid'')]
               world0))
   \<and> snd (createInvoice state0 [(''amount'', Text ''10.50''), (''status'', Text ''paid'')]
            world0) = world0"
proof -
  have h: "formData_get [(''amount'', Text ''10.50''), (''status'', Text ''paid'')]
             ''customerId'' \<in> {None, Some File}"
    by (simp add: formData_get_def)
  show ?thesis
    using h createInvoice_customerId_not_string [OF h, of state0 world0] by simp
qed

subsection \<open>C5: registering an email that is already stored\<close>

text \<open>
  C5. For every email that a row of the users table already has, \<open>register\<close> leaves the
  users table as it was and sends no insert (it sends no statement, or the lookup of
  that email only); when the form passes the schema and the lookup succeeds, it returns
  the message that the user already exists.
\<close>

theorem register_existing_email:
  assumes "formData_get fd ''email'' = Some (Text email)"
    and "email \<in> usr_email ` set (users w)"
  shows "users (snd (register prev fd w)) = users w
       \<and> statements (trace (snd (register prev fd w)))
           \<in> {statements (trace w), statements (trace w) @ [SelectUserId email]}
       \<and> (register_form fd \<noteq> None \<and> sql_outcome w (sql_count w) = None
            \<longrightarrow> fst (register prev fd w) = Returns ''User with this email already exists.'')"
proof (cases "register_form fd")
  case None
  then show ?thesis by (simp add: register_invalid)
next
  case (Some t)
  then obtain n e p where t: "register_form fd = Some (n, e, p)"
    by (cases t) auto
  then have e: "e = email"
    using assms(1) by (simp add: register_form_def RegisterFormSchema_Some)
  show ?thesis
  proof (cases "sql_outcome w (sql_count w)")
    case None
    then show ?thesis
      using t e assms(2) by (simp add: register_exists statements_append)
  next
    case (Some err)
    then show ?thesis
      using t e by (simp add: register_select_raises statements_append)
  qed
qed

theorem register_existing_email_witness:
  "formData_get (register_form_of ''Bob'' ''ann@example.org'' ''secret1'') ''email''
     = Some (Text ''ann@example.org'')
   \<and> ''ann@example.org'' \<in> usr_email ` set (users world0)
   \<and> register_form (register_form_of ''Bob'' ''ann@example.org'' ''secret1'') \<noteq> None
   \<and> sql_outcome world0 (sql_count world0) = None
   \<and> users (snd (register None (register_form_of ''Bob'' ''ann@example.org'' ''secret1'') world0))
       = users world0
   \<and> fst (register None (register_form_of ''Bob'' ''ann@example.org'' ''secret1'') world0)
       = Returns ''User with this email already exists.''"
proof -
  have h1: "formData_get (register_form_of ''Bob'' ''ann@example.org'' ''secret1'') ''email''
              = Some (Text ''ann@example.org'')"
    by (simp add: get_register_form_of)
  have h2: "''ann@example.org'' \<in> usr_email ` set (users world0)"
    by (simp add: world0_fields)
  have h3: "register_form (register_form_of ''Bob'' ''ann@example.org'' ''secret1'')
              = Some (''Bob'', ''ann@example.org'', ''secret1'')"
    by (simp add: register_form_def RegisterFormSchema_Some get_register_form_of email_ann)
  have h4: "sql_outcome world0 (sql_count world0) = None"
    by (simp add: world0_fields)
  show ?thesis
    using h1 h2 h3 h4 register_existing_email [OF h1 h2, of None] by simp
qed

subsection \<open>C6: the length of the password\<close>

text \<open>
  C6. With a password of length 5, \<open>register\<close> returns the validation message and leaves
  the world as it was: no statement is sent. With a password of length 6, a non-empty
  name, a well-formed email that no row has, and a lookup that succeeds, \<open>register\<close>
  calls \<^verbatim>\<open>bcryptjs.hash\<close> on the password with cost 10 and sends the insert of the name,
  the email and that hash; when the insert succeeds the row is in the table and the
  action redirects to \<^verbatim>\<open>/login\<close>, when it raises an error the action logs it and returns
  the database message.
\<close>

theorem register_password_length:
  "(formData_get fd ''password'' = Some (Text p) \<and> length p = 5
      \<longrightarrow> register prev fd w = (Returns ''Missing Fields. Failed to Register.'', w))
   \<and> (formData_get fd ''name'' = Some (Text n) \<and> n \<noteq> [] \<and>
       formData_get fd ''email'' = Some (Text e) \<and> email_regex e \<and>
       e \<notin> usr_email ` set (users w) \<and>
       formData_get fd ''password'' = Some (Text p) \<and> length p = 6 \<and>
       sql_outcome w (sql_count w) = None
      \<longrightarrow> register prev fd w =
           (case sql_outcome w (Suc (sql_count w)) of
              None \<Rightarrow>
                (Redirects ''/login'',
                 w\<lparr>users := users w @
                      [\<lparr>usr_id = new_id w (Suc (sql_count w)), usr_name = n, usr_email = e,
                        usr_password = bcrypt_hash w p 10\<rparr>],
                   sql_count := Suc (Suc (sql_count w)),
                   trace := trace w @ [Sql (SelectUserId e), BcryptHash p 10,
                                       Sql (InsertUser n e (bcrypt_hash w p 10)),
                                       Redirect ''/login'']\<rparr>)
            | Some err \<Rightarrow>
                (Returns ''Database Error: Failed to register.'',
                 w\<lparr>sql_count := Suc (Suc (sql_count w)),
                   trace := trace w @ [Sql (SelectUserId e), BcryptHash p 10,
                                       Sql (InsertUser n e (bcrypt_hash w p 10)),
                                       ConsoleError ''Registration Error:'' err]\<rparr>)))"
proof (intro conjI impI)
  assume "formData_get fd ''password'' = Some (Text p) \<and> length p = 5"
  then have "register_form fd = None"
    by (cases "register_form fd") (auto simp: register_form_def RegisterFormSchema_Some)
  then show "register prev fd w = (Returns ''Missing Fields. Failed to Register.'', w)"
    by (rule register_invalid)
next
  assume a: "formData_get fd ''name'' = Some (Text n) \<and> n \<noteq> [] \<and>
       formData_get fd ''email'' = Some (Text e) \<and> email_regex e \<and>
       e \<notin> usr_email ` set (users w) \<and>
       formData_get fd ''password'' = Some (Text p) \<and> length p = 6 \<and>
       sql_outcome w (sql_count w) = None"
  then have "1 \<le> length n" by (cases n) auto
  with a have f: "register_form fd = Some (n, e, p)"
    by (simp add: register_form_def RegisterFormSchema_Some)
  from a have sel: "sql_outcome w (sql_count w) = None"
    and fresh: "e \<notin> usr_email ` set (users w)"
    by simp_all
  show "register prev fd w =
           (case sql_outcome w (Suc (sql_count w)) of
              None \<Rightarrow>
                (Redirects ''/login'',
                 w\<lparr>users := users w @
                      [\<lparr>usr_id = new_id w (Suc (sql_count w)), usr_name = n, usr_email = e,
                        usr_password = bcrypt_hash w p 10\<rparr>],
                   sql_count := Suc (Suc (sql_count w)),
                   trace := trace w @ [Sql (SelectUserId e), BcryptHash p 10,
                                       Sql (InsertUser n e (bcrypt_hash w p 10)),
                                       Redirect ''/login'']\<rparr>)
            | Some err \<Rightarrow>
                (Returns ''Database Error: Failed to register.'',
                 w\<lparr>sql_count := Suc (Suc (sql_count w)),
                   trace := trace w @ [Sql (SelectUserId e), BcryptHash p 10,
                                       Sql (InsertUser n e (bcrypt_hash w p 10)),
                                       ConsoleError ''Registration Error:'' err]\<rparr>))"
  proof (cases "sql_outcome w (Suc (sql_count w))")
    case None
    from register_inserts [OF f sel fresh None] show ?thesis
      by (simp only: None option.case)
  next
    case (Some err)
    from register_insert_raises [OF f sel fresh Some] show ?thesis
      by (simp only: Some option.case)
  qed
qed

theorem register_password_length_witness:
  "length ''12345'' = 5
   \<and> register None (register_form_of ''Bob'' ''bob@example.org'' ''12345'') world0
       = (Returns ''Missing Fields. Failed to Register.'', world0)
   \<and> length ''123456'' = 6
   \<and> fst (register None (register_form_of ''Bob'' ''bob@example.org'' ''123456'') world0)
       = Redirects ''/login''
   \<and> users (snd (register None (register_form_of ''Bob'' ''bob@example.org'' ''123456'') world0))
       = users world0 @
         [\<lparr>usr_id = ''row+'', usr_name = ''Bob'', usr_email = ''bob@example.org'',
           usr_password = ''$2a$10$654321''\<rparr>]
   \<and> trace (snd (register None (register_form_of ''Bob'' ''bob@example.org'' ''123456'') world0))
       = [Sql (SelectUserId ''bob@example.org''), BcryptHash ''123456'' 10,
          Sql (InsertUser ''Bob'' ''bob@example.org'' ''$2a$10$654321''), Redirect ''/login'']"
proof -
  have fresh: "''bob@example.org'' \<notin> usr_email ` set (users world0)"
    by (simp add: world0_fields)
  show ?thesis
    using fresh email_bob
      register_password_length
        [where fd = "register_form_of ''Bob'' ''bob@example.org'' ''12345''"
           and p = "''12345''" and prev = None and w = world0]
      register_password_length
        [where fd = "register_form_of ''Bob'' ''bob@example.org'' ''123456''"
           and p = "''123456''" and prev = None and w = world0
           and n = "''Bob''" and e = "''bob@example.org''"]
    by (simp add: get_register_form_of world0_fields)
qed

subsection \<open>C7: the messages of authenticate\<close>

text \<open>
  C7. When \<^verbatim>\<open>signIn\<close> raises an \<^verbatim>\<open>AuthError\<close>, \<open>authenticate\<close> returns the string
  \<^verbatim>\<open>Invalid credentials.\<close> if the type of the error is \<^verbatim>\<open>CredentialsSignin\<close> and the string
  \<^verbatim>\<open>Something went wrong.\<close> for every other type; when \<^verbatim>\<open>signIn\<close> raises any other error,
  \<open>authenticate\<close> throws that same error.
\<close>

theorem authenticate_error_mapping:
  "(signIn_outcome w ''credentials'' fd = Some (AuthError ''CredentialsSignin'')
      \<longrightarrow> fst (authenticate prev fd w) = Returns (Some ''Invalid credentials.''))
   \<and> (signIn_outcome w ''credentials'' fd = Some (AuthError t) \<and> t \<noteq> ''CredentialsSignin''
      \<longrightarrow> fst (authenticate prev fd w) = Returns (Some ''Something went wrong.''))
   \<and> (signIn_outcome w ''credentials'' fd = Some (OtherError x)
      \<longrightarrow> fst (authenticate prev fd w) = Throws (OtherError x))"
  by (simp add: authenticate_def signIn_def)

theorem authenticate_error_mapping_witness:
  "fst (authenticate None [] world0) = Returns (Some ''Invalid credentials.'')
   \<and> fst (authenticate None []
           (world0\<lparr>signIn_outcome := \<lambda>provider fd. Some (AuthError ''CallbackRouteError'')\<rparr>))
       = Returns (Some ''Something went wrong.'')
   \<and> fst (authenticate None []
           (world0\<lparr>signIn_outcome := \<lambda>provider fd. Some (OtherError ''NEXT_REDIRECT'')\<rparr>))
       = Throws (OtherError ''NEXT_REDIRECT'')"
  using authenticate_error_mapping [where w = world0 and fd = "[]" and prev = None]
    authenticate_error_mapping
      [where w = "world0\<lparr>signIn_outcome :=
                          \<lambda>provider fd. Some (AuthError ''CallbackRouteError'')\<rparr>"
         and fd = "[]" and prev = None and t = "''CallbackRouteError''"]
    authenticate_error_mapping
      [where w = "world0\<lparr>signIn_outcome :=
                          \<lambda>provider fd. Some (OtherError ''NEXT_REDIRECT'')\<rparr>"
         and fd = "[]" and prev = None and x = "''NEXT_REDIRECT''"]
  by (simp add: world0_fields)

subsection \<open>C8: deleteInvoice never surfaces an error\<close>

text \<open>
  C8. For every identifier and every outcome of the delete statement, \<open>deleteInvoice\<close>
  returns normally, with no value; when the statement raises an error, the only thing
  the action does with it is to write it to the console log.
\<close>

theorem deleteInvoice_never_surfaces:
  "fst (deleteInvoice k w) = Returns ()
   \<and> (sql_outcome w (sql_count w) = Some e
      \<longrightarrow> snd (deleteInvoice k w) =
            w\<lparr>sql_count := Suc (sql_count w),
              trace := trace w @ [Sql (DeleteInvoice k), ConsoleLog e]\<rparr>)"
  by (cases "sql_outcome w (sql_count w)")
     (simp_all add: deleteInvoice_def sql_raises sql_runs emit_def split: prod.splits)

theorem deleteInvoice_never_surfaces_witness:
  "sql_outcome world_down (sql_count world_down) = Some (OtherError ''connection refused'')
   \<and> fst (deleteInvoice ''inv1'' world_down) = Returns ()
   \<and> trace (snd (deleteInvoice ''inv1'' world_down))
       = [Sql (DeleteInvoice ''inv1''), ConsoleLog (OtherError ''connection refused'')]"
  using deleteInvoice_never_surfaces
    [where k = "''inv1''" and w = world_down and e = "OtherError ''connection refused''"]
  by (simp add: world_down_fields)

subsection \<open>C9: when an action redirects\<close>

text \<open>
  C9. The whole run of every action, as the result and the world it leaves. The call of
  \<^verbatim>\<open>redirect\<close> is the last event of a run and is there in three cases only: in
  \<open>createInvoice\<close> and \<open>updateInvoice\<close>, to \<^verbatim>\<open>/dashboard/invoices\<close>, after the form has
  passed validation, the statement has been sent and has succeeded (the table has
  changed) and the path has been invalidated; in \<open>register\<close>, to \<^verbatim>\<open>/login\<close>, after the
  form has passed validation, the lookup has been sent and has found no row, the
  password has been hashed and the insert has been sent and has succeeded. A run that
  fails validation sends nothing; a run whose statement raises an error ends with that
  statement or with the log entry. \<open>deleteInvoice\<close> and \<open>authenticate\<close> never call
  \<^verbatim>\<open>redirect\<close>. The last five conjuncts read the redirects off these runs.
\<close>

theorem redirect_only_after_success:
  "createInvoice st fd w =
     (case FormSchema_safeParse (formData_get fd ''customerId'')
             (formData_get fd ''amount'') (formData_get fd ''status'') of
        Inl fieldErrors \<Rightarrow>
          (Returns \<lparr>errors = Some fieldErrors,
                    message = Some ''Missing Fields. Failed to create Invoice.''\<rparr>, w)
      | Inr (c, a, s) \<Rightarrow>
          (case sql_outcome w (sql_count w) of
             None \<Rightarrow>
               (Redirects ''/dashboard/invoices'',
                w\<lparr>invoices := invoices w @
                     [\<lparr>inv_id = new_id w (sql_count w), inv_customer_id = c,
                       inv_amount = js_mul a (Fin 100), inv_status = s,
                       inv_date = iso_date (now w)\<rparr>],
                   sql_count := Suc (sql_count w),
                   trace := trace w @
                     [Sql (InsertInvoice c (js_mul a (Fin 100)) s (iso_date (now w))),
                      RevalidatePath ''/dashboard/invoices'',
                      Redirect ''/dashboard/invoices'']\<rparr>)
           | Some err \<Rightarrow>
               (Returns \<lparr>errors = None,
                         message = Some ''Database Error: Failed to Create Invoice.''\<rparr>,
                w\<lparr>sql_count := Suc (sql_count w),
                   trace := trace w @
                     [Sql (InsertInvoice c (js_mul a (Fin 100)) s (iso_date (now w)))]\<rparr>)))
   \<and> updateInvoice k st fd w =
     (case FormSchema_safeParse (formData_get fd ''customerId'')
             (formData_get fd ''amount'') (formData_get fd ''status'') of
        Inl fieldErrors \<Rightarrow>
          (Returns \<lparr>errors = Some fieldErrors,
                    message = Some ''Missing Fields. Failed to update Invoice.''\<rparr>, w)
      | Inr (c, a, s) \<Rightarrow>
          (case sql_outcome w (sql_count w) of
             None \<Rightarrow>
               (Redirects ''/dashboard/invoices'',
                w\<lparr>invoices :=
                     map (\<lambda>r. if inv_id r = k
                               then r\<lparr>inv_customer_id := c, inv_amount := js_mul a (Fin 100),
                                      inv_status := s\<rparr>
                               else r) (invoices w),
                   sql_count := Suc (sql_count w),
                   trace := trace w @
                     [Sql (UpdateInvoiceSet c (js_mul a (Fin 100)) s k),
                      RevalidatePath ''/dashboard/invoices'',
                      Redirect ''/dashboard/invoices'']\<rparr>)
           | Some err \<Rightarrow>
               (Returns \<lparr>errors = None,
                         message = Some ''Database Error: Failed to Update Invoice.''\<rparr>,
                w\<lparr>sql_count := Suc (sql_count w),
                   trace := trace w @
                     [Sql (UpdateInvoiceSet c (js_mul a (Fin 100)) s k)]\<rparr>)))
   \<and> register prev fd w =
     (case register_form fd of
        None \<Rightarrow> (Returns ''Missing Fields. Failed to Register.'', w)
      | Some (n, e, p) \<Rightarrow>
          (case sql_outcome w (sql_count w) of
             Some err \<Rightarrow>
               (Returns ''Database Error: Failed to register.'',
                w\<lparr>sql_count := Suc (sql_count w),
                   trace := trace w @
                     [Sql (SelectUserId e), ConsoleError ''Registration Error:'' err]\<rparr>)
           | None \<Rightarrow>
               if e \<in> usr_email ` set (users w)
               then (Returns ''User with this email already exists.'',
                     w\<lparr>sql_count := Suc (sql_count w),
                        trace := trace w @ [Sql (SelectUserId e)]\<rparr>)
               else (case sql_outcome w (Suc (sql_count w)) of
                  Some err \<Rightarrow>
                    (Returns ''Database Error: Failed to register.'',
                     w\<lparr>sql_count := Suc (Suc (sql_count w)),
                        trace := trace w @
                          [Sql (SelectUserId e), BcryptHash p 10,
                           Sql (InsertUser n e (bcrypt_hash w p 10)),
                           ConsoleError ''Registration Error:'' err]\<rparr>)
                | None \<Rightarrow>
                    (Redirects ''/login'',
                     w\<lparr>users := users w @
                          [\<lparr>usr_id = new_id w (Suc (sql_count w)), usr_name = n,
                            usr_email = e, usr_password = bcrypt_hash w p 10\<rparr>],
                        sql_count := Suc (Suc (sql_count w)),
                        trace := trace w @
                          [Sql (SelectUserId e), BcryptHash p 10,
                           Sql (InsertUser n e (bcrypt_hash w p 10)),
                           Redirect ''/login'']\<rparr>))))
   \<and> deleteInvoice k w =
     (case sql_outcome w (sql_count w) of
        None \<Rightarrow>
          (Returns (),
           w\<lparr>invoices := filter (\<lambda>r. inv_id r \<noteq> k) (invoices w),
              sql_count := Suc (sql_count w),
              trace := trace w @
                [Sql (DeleteInvoice k), RevalidatePath ''/dashboard/invoices'']\<rparr>)
      | Some err \<Rightarrow>
          (Returns (),
           w\<lparr>sql_count := Suc (sql_count w),
              trace := trace w @ [Sql (DeleteInvoice k), ConsoleLog err]\<rparr>))
   \<and> authenticate prev fd w =
     (case signIn_outcome w ''credentials'' fd of
        None \<Rightarrow> Returns None
      | Some (AuthError t) \<Rightarrow>
          Returns (Some (if t = ''CredentialsSignin'' then ''Invalid credentials.''
                         else ''Something went wrong.''))
      | Some (OtherError x) \<Rightarrow> Throws (OtherError x),
      w\<lparr>trace := trace w @ [SignIn ''credentials'' fd]\<rparr>)
   \<and> redirects (trace (snd (createInvoice st fd w))) =
     redirects (trace w) @
       (if invoice_form_valid fd \<and> sql_outcome w (sql_count w) = None
        then [''/dashboard/invoices''] else [])
   \<and> redirects (trace (snd (updateInvoice k st fd w))) =
     redirects (trace w) @
       (if invoice_form_valid fd \<and> sql_outcome w (sql_count w) = None
        then [''/dashboard/invoices''] else [])
   \<and> redirects (trace (snd (register prev fd w))) =
     redirects (trace w) @
       (case register_form fd of
          None \<Rightarrow> []
        | Some (n, e, p) \<Rightarrow>
            if sql_outcome w (sql_count w) = None \<and> e \<notin> usr_email ` set (users w)
               \<and> sql_outcome w (Suc (sql_count w)) = None
            then [''/login''] else [])
   \<and> redirects (trace (snd (deleteInvoice k w))) = redirects (trace w)
   \<and> redirects (trace (snd (authenticate prev fd w))) = redirects (trace w)"
  by (intro conjI)
     (rule createInvoice_run updateInvoice_run register_run deleteInvoice_run
        authenticate_run createInvoice_redirects updateInvoice_redirects
        register_redirects deleteInvoice_redirects authenticate_redirects)+

theorem redirect_only_after_success_witness:
  "createInvoice state0 (invoice_form ''c1'' ''10.50'' ''paid'') world0 =
     (Redirects ''/dashboard/invoices'',
      world0\<lparr>invoices :=
               [\<lparr>inv_id = ''row'', inv_customer_id = ''c1'', inv_amount = Fin 1050,
                 inv_status = Paid, inv_date = ''2024-03-07''\<rparr>],
             sql_count := 1,
             trace := [Sql (InsertInvoice ''c1'' (Fin 1050) Paid ''2024-03-07''),
                       RevalidatePath ''/dashboard/invoices'',
                       Redirect ''/dashboard/invoices'']\<rparr>)
   \<and> updateInvoice ''inv1'' state0 (invoice_form ''c1'' ''10.50'' ''paid'') world_down =
     (Returns \<lparr>errors = None,
               message = Some ''Database Error: Failed to Update Invoice.''\<rparr>,
      world_down\<lparr>sql_count := 1,
                 trace := [Sql (UpdateInvoiceSet ''c1'' (Fin 1050) Paid ''inv1'')]\<rparr>)
   \<and> snd (createInvoice state0 (invoice_form ''c1'' ''10.50'' ''draft'') world0) = world0
   \<and> trace (snd (register None (register_form_of ''Bob'' ''bob@example.org'' ''123456'')
                  world0)) =
       [Sql (SelectUserId ''bob@example.org''), BcryptHash ''123456'' 10,
        Sql (InsertUser ''Bob'' ''bob@example.org'' ''$2a$10$654321''), Redirect ''/login'']
   \<and> trace (snd (register None (register_form_of ''Bob'' ''ann@example.org'' ''123456'')
                  world0)) = [Sql (SelectUserId ''ann@example.org'')]
   \<and> redirects (trace (snd (deleteInvoice ''inv1'' world0))) = []"
  using redirect_only_after_success
      [where st = state0 and fd = "invoice_form ''c1'' ''10.50'' ''paid''" and w = world0
         and k = "''inv1''" and prev = None]
    redirect_only_after_success
      [where st = state0 and fd = "invoice_form ''c1'' ''10.50'' ''paid''" and w = world_down
         and k = "''inv1''" and prev = None]
    redirect_only_after_success
      [where st = state0 and fd = "invoice_form ''c1'' ''10.50'' ''draft''" and w = world0
         and k = "''inv1''" and prev = None]
    redirect_only_after_success
      [where st = state0 and fd = "register_form_of ''Bob'' ''bob@example.org'' ''123456''"
         and w = world0 and k = "''inv1''" and prev = None]
    redirect_only_after_success
      [where st = state0 and fd = "register_form_of ''Bob'' ''ann@example.org'' ''123456''"
         and w = world0 and k = "''inv1''" and prev = None]
  by (simp add: get_invoice_form FormSchema_10_50_paid FormSchema_10_50_draft cents_10_50
      register_form_bob register_form_ann world0_fields world_down_fields world0_today
      world_down_today del: js_mul.simps)

subsection \<open>C10: deleteInvoice invalidates the cache only after a successful delete\<close>

text \<open>
  C10. \<open>deleteInvoice\<close> invalidates the path \<^verbatim>\<open>/dashboard/invoices\<close> once when the delete
  statement succeeds and not at all when the statement raises an error; in both cases
  it returns normally.
\<close>

theorem deleteInvoice_revalidates_on_success_only:
  "revalidations (trace (snd (deleteInvoice k w))) =
     revalidations (trace w) @
       (if sql_outcome w (sql_count w) = None then [''/dashboard/invoices''] else [])
   \<and> fst (deleteInvoice k w) = Returns ()"
  by (cases "sql_outcome w (sql_count w)")
     (simp_all add: deleteInvoice_def sql_raises sql_runs emit_def revalidatePath_def
        revalidations_append split: prod.splits)

theorem deleteInvoice_revalidates_on_success_only_witness:
  "revalidations (trace (snd (deleteInvoice ''inv1'' world_down))) = []
   \<and> revalidations (trace (snd (deleteInvoice ''inv1'' world0))) = [''/dashboard/invoices'']"
  using deleteInvoice_revalidates_on_success_only [where k = "''inv1''" and w = world_down]
    deleteInvoice_revalidates_on_success_only [where k = "''inv1''" and w = world0]
  by (simp add: world0_fields world_down_fields)

end
